theory Spec2Isabelle
  imports Main
begin

section \<open>Python values and the exceptions the interpreter raises\<close>

text \<open>
  The sample apps are Python scripts over SDK responses whose shape is not fixed by any
  type: responses are nested dictionaries and lists (boto3) or objects with attributes
  (the Databricks SDK). The embedding keeps them dynamic.

  A value of type \<open>exn\<close> stands for an instance of Python's \<open>Exception\<close>: its class
  and the text \<open>str(e)\<close>. Every handler in the sources is \<open>except Exception\<close> (or
  narrower); \<open>KeyboardInterrupt\<close> and \<open>SystemExit\<close> derive from \<open>BaseException\<close> only
  and are not values of this type.
\<close>

datatype exn_class =
    ImportError | ModuleNotFoundError | JSONDecodeError
  | KeyError | TypeError | AttributeError | NameError | FileNotFoundError
  | UnicodeDecodeError | OSError | OtherException

datatype exn = Exn (exn_class: exn_class) (str_exn: string)

text \<open>
  \<open>except ImportError\<close> matches the class and its subclass \<open>ModuleNotFoundError\<close>.
\<close>

fun isinstance_ImportError :: "exn \<Rightarrow> bool" where
  "isinstance_ImportError (Exn c m) = (c = ImportError \<or> c = ModuleNotFoundError)"

fun isinstance_JSONDecodeError :: "exn \<Rightarrow> bool" where
  "isinstance_JSONDecodeError (Exn c m) = (c = JSONDecodeError)"

text \<open>
  A dictionary is an association list in insertion order, each key listed once, read
  with \<open>map_of\<close>; an
  object is its class name and its instance attributes; a bound method taking no
  further argument is the outcome of calling it; a float is a mantissa and a binary
  exponent. In \<open>PStr\<close> one \<open>char\<close> stands for one character of the Python string, in
  \<open>PBytes\<close> for one byte.
\<close>

datatype pyval =
    PNone
  | PBool bool
  | PInt int
  | PFloat int int
  | PStr string
  | PBytes string
  | PList "pyval list"
  | PDict "(string \<times> pyval) list"
  | PObj string "(string \<times> pyval) list"
  | PMethod "exn + pyval"

fun type_name :: "pyval \<Rightarrow> string" where
  "type_name PNone = ''NoneType''"
| "type_name (PBool b) = ''bool''"
| "type_name (PInt i) = ''int''"
| "type_name (PFloat m e) = ''float''"
| "type_name (PStr s) = ''str''"
| "type_name (PBytes b) = ''bytes''"
| "type_name (PList xs) = ''list''"
| "type_name (PDict kvs) = ''dict''"
| "type_name (PObj cls attrs) = cls"
| "type_name (PMethod r) = ''method''"

definition quoted :: "string \<Rightarrow> string" where
  "quoted s = [CHR 0x27] @ s @ [CHR 0x27]"

text \<open>
  \<open>hasattr\<close> and attribute access. The sources ask only for the names
  \<open>aws_temp_credentials\<close>, \<open>access_key_id\<close>, \<open>secret_access_key\<close>, \<open>session_token\<close>,
  \<open>contents\<close>, \<open>content\<close>, \<open>body\<close> and \<open>read\<close>, none of which a built-in value has,
  and for the method \<open>get\<close>, which among the built-in values only a dictionary has
  (see \<open>py_get\<close> below).
\<close>

fun hasattr :: "pyval \<Rightarrow> string \<Rightarrow> bool" where
  "hasattr (PObj cls attrs) name = (map_of attrs name \<noteq> None)"
| "hasattr v name = False"

definition no_attribute :: "pyval \<Rightarrow> string \<Rightarrow> exn" where
  "no_attribute v name =
     Exn AttributeError (quoted (type_name v) @ '' object has no attribute '' @ quoted name)"

fun getattr :: "pyval \<Rightarrow> string \<Rightarrow> exn + pyval" where
  "getattr (PObj cls attrs) name =
     (case map_of attrs name of
        Some v \<Rightarrow> Inr v
      | None \<Rightarrow> Inl (no_attribute (PObj cls attrs) name))"
| "getattr v name = Inl (no_attribute v name)"

text \<open>Calling a value with no argument, as in \<open>x.read()\<close>.\<close>

fun call :: "pyval \<Rightarrow> exn + pyval" where
  "call (PMethod r) = r"
| "call v = Inl (Exn TypeError (quoted (type_name v) @ '' object is not callable''))"

text \<open>\<open>v[key]\<close> with a string key.\<close>

fun subscript :: "pyval \<Rightarrow> string \<Rightarrow> exn + pyval" where
  "subscript (PDict kvs) key =
     (case map_of kvs key of
        Some v \<Rightarrow> Inr v
      | None \<Rightarrow> Inl (Exn KeyError (quoted key)))"
| "subscript (PList xs) key =
     Inl (Exn TypeError ''list indices must be integers or slices, not str'')"
| "subscript (PStr s) key =
     Inl (Exn TypeError (''string indices must be integers, not '' @ quoted ''str''))"
| "subscript (PBytes b) key =
     Inl (Exn TypeError ''byte indices must be integers or slices, not str'')"
| "subscript v key =
     Inl (Exn TypeError (quoted (type_name v) @ '' object is not subscriptable''))"

text \<open>\<open>v.get(key, default)\<close>: the dictionary method, or whatever attribute \<open>get\<close> an object has.\<close>

fun py_get :: "pyval \<Rightarrow> string \<Rightarrow> pyval \<Rightarrow> exn + pyval" where
  "py_get (PDict kvs) key dflt =
     (case map_of kvs key of Some v \<Rightarrow> Inr v | None \<Rightarrow> Inr dflt)"
| "py_get v key dflt =
     (case getattr v ''get'' of Inl e \<Rightarrow> Inl e | Inr m \<Rightarrow> call m)"

text \<open>The elements a \<open>for\<close> loop visits.\<close>

fun py_iter :: "pyval \<Rightarrow> exn + pyval list" where
  "py_iter (PList xs) = Inr xs"
| "py_iter (PDict kvs) = Inr (map (\<lambda>kv. PStr (fst kv)) kvs)"
| "py_iter (PStr s) = Inr (map (\<lambda>c. PStr [c]) s)"
| "py_iter (PBytes b) = Inr (map (\<lambda>c. PInt (int (of_char c))) b)"
| "py_iter v = Inl (Exn TypeError (quoted (type_name v) @ '' object is not iterable''))"

section \<open>sample-get-uc-service-creds/app.py\<close>

subsection \<open>get_workspace_client\<close>

text \<open>
  The module reads three environment variables once, with \<open>os.getenv(name, None)\<close>.
  A client is represented by the keyword arguments its constructor was called with.
\<close>

type_synonym environ = "string \<rightharpoonup> string"

definition os_getenv :: "environ \<Rightarrow> string \<Rightarrow> pyval \<Rightarrow> pyval" where
  "os_getenv env name dflt = (case env name of Some v \<Rightarrow> PStr v | None \<Rightarrow> dflt)"

definition ENVIRONMENT :: "environ \<Rightarrow> pyval" where
  "ENVIRONMENT env = os_getenv env ''ENVIRONMENT'' PNone"

definition DATABRICKS_HOST :: "environ \<Rightarrow> pyval" where
  "DATABRICKS_HOST env = os_getenv env ''DATABRICKS_HOST'' PNone"

definition DATABRICKS_TOKEN :: "environ \<Rightarrow> pyval" where
  "DATABRICKS_TOKEN env = os_getenv env ''DATABRICKS_TOKEN'' PNone"

datatype workspace_client = WorkspaceClient "(string \<times> pyval) list"

definition get_workspace_client :: "environ \<Rightarrow> workspace_client" where
  "get_workspace_client env =
     (if ENVIRONMENT env = PStr ''LOCAL''
      then WorkspaceClient [(''host'', DATABRICKS_HOST env), (''token'', DATABRICKS_TOKEN env)]
      else WorkspaceClient [])"

subsection \<open>get_aws_credentials\<close>

text \<open>
  The credential service is the one external call of the function: given the client and
  the credential name it returns a response or raises.
\<close>

record databricks =
  generate_temporary_service_credential :: "workspace_client \<Rightarrow> string \<Rightarrow> exn + pyval"

text \<open>The body of the \<open>try\<close> block (lines 41 to 64); logging has no part in the result.\<close>

definition get_aws_credentials_try ::
  "databricks \<Rightarrow> workspace_client \<Rightarrow> string \<Rightarrow> exn + (pyval \<times> pyval)" where
  "get_aws_credentials_try D wc service_credential_name =
     (case generate_temporary_service_credential D wc service_credential_name of
        Inl e \<Rightarrow> Inl e
      | Inr temp_credentials \<Rightarrow>
          if hasattr temp_credentials ''aws_temp_credentials'' then
            (case getattr temp_credentials ''aws_temp_credentials'' of
               Inl e \<Rightarrow> Inl e
             | Inr aws_creds \<Rightarrow>
                 (case getattr aws_creds ''access_key_id'' of
                    Inl e \<Rightarrow> Inl e
                  | Inr k \<Rightarrow>
                      (case getattr aws_creds ''secret_access_key'' of
                         Inl e \<Rightarrow> Inl e
                       | Inr s \<Rightarrow>
                           (case getattr aws_creds ''session_token'' of
                              Inl e \<Rightarrow> Inl e
                            | Inr t \<Rightarrow>
                                Inr (PDict [(''access_key_id'', k),
                                            (''secret_access_key'', s),
                                            (''session_token'', t)], PNone)))))
          else Inr (PNone, PStr ''No AWS credentials found in response''))"

definition get_aws_credentials ::
  "databricks \<Rightarrow> workspace_client \<Rightarrow> string \<Rightarrow> pyval \<times> pyval" where
  "get_aws_credentials D wc service_credential_name =
     (case get_aws_credentials_try D wc service_credential_name of
        Inr r \<Rightarrow> r
      | Inl e \<Rightarrow> (PNone, PStr (''Error getting AWS credentials: '' @ str_exn e)))"

subsection \<open>get_ec2_instances\<close>

text \<open>
  The cloud SDK: the session constructor, \<open>session.client\<close> and
  \<open>ec2_client.describe_instances\<close>, each returning its result or raising. The function
  also yields the list of the SDK calls it made, with their arguments.
\<close>

record ('s, 'c) boto3 =
  Session :: "pyval \<Rightarrow> pyval \<Rightarrow> pyval \<Rightarrow> exn + 's"
  client :: "'s \<Rightarrow> string \<Rightarrow> string \<Rightarrow> exn + 'c"
  describe_instances :: "'c \<Rightarrow> exn + pyval"

datatype boto3_call =
    Call_Session pyval pyval pyval
  | Call_client string string
  | Call_describe_instances

text \<open>Lines 92 to 95: the loop over the tags, left at the first tag whose key is \<open>Name\<close>.\<close>

fun tags_loop :: "pyval list \<Rightarrow> pyval \<Rightarrow> exn + pyval" where
  "tags_loop [] instance_name = Inr instance_name"
| "tags_loop (tag # tags) instance_name =
     (case subscript tag ''Key'' of
        Inl e \<Rightarrow> Inl e
      | Inr k \<Rightarrow>
          if k = PStr ''Name'' then subscript tag ''Value''
          else tags_loop tags instance_name)"

text \<open>Lines 90 to 100: the record built for one instance.\<close>

definition instance_info :: "pyval \<Rightarrow> exn + pyval" where
  "instance_info inst =
     (case py_get inst ''Tags'' (PList []) of
        Inl e \<Rightarrow> Inl e
      | Inr tagsv \<Rightarrow>
          (case py_iter tagsv of
             Inl e \<Rightarrow> Inl e
           | Inr tags \<Rightarrow>
               (case tags_loop tags (PStr ''N/A'') of
                  Inl e \<Rightarrow> Inl e
                | Inr instance_name \<Rightarrow>
                    (case subscript inst ''InstanceId'' of
                       Inl e \<Rightarrow> Inl e
                     | Inr iid \<Rightarrow>
                         Inr (PDict [(''Name'', instance_name), (''Instance ID'', iid)])))))"

fun instances_loop :: "pyval list \<Rightarrow> pyval list \<Rightarrow> exn + pyval list" where
  "instances_loop [] instances = Inr instances"
| "instances_loop (inst # rest) instances =
     (case instance_info inst of
        Inl e \<Rightarrow> Inl e
      | Inr info \<Rightarrow> instances_loop rest (instances @ [info]))"

fun reservations_loop :: "pyval list \<Rightarrow> pyval list \<Rightarrow> exn + pyval list" where
  "reservations_loop [] instances = Inr instances"
| "reservations_loop (reservation # rest) instances =
     (case subscript reservation ''Instances'' of
        Inl e \<Rightarrow> Inl e
      | Inr iv \<Rightarrow>
          (case py_iter iv of
             Inl e \<Rightarrow> Inl e
           | Inr insts \<Rightarrow>
               (case instances_loop insts instances of
                  Inl e \<Rightarrow> Inl e
                | Inr instances' \<Rightarrow> reservations_loop rest instances')))"

text \<open>Lines 87 to 101, from the response to the list of records.\<close>

definition extract_instances :: "pyval \<Rightarrow> exn + pyval list" where
  "extract_instances response =
     (case subscript response ''Reservations'' of
        Inl e \<Rightarrow> Inl e
      | Inr rv \<Rightarrow>
          (case py_iter rv of
             Inl e \<Rightarrow> Inl e
           | Inr reservations \<Rightarrow> reservations_loop reservations []))"

text \<open>The body of the \<open>try\<close> block (lines 76 to 104) with the calls made so far.\<close>

definition get_ec2_instances_try ::
  "('s, 'c) boto3 \<Rightarrow> pyval \<Rightarrow> string \<Rightarrow> (exn + pyval list) \<times> boto3_call list" where
  "get_ec2_instances_try B aws_credentials region =
     (case subscript aws_credentials ''access_key_id'' of
        Inl e \<Rightarrow> (Inl e, [])
      | Inr k \<Rightarrow>
     (case subscript aws_credentials ''secret_access_key'' of
        Inl e \<Rightarrow> (Inl e, [])
      | Inr s \<Rightarrow>
     (case subscript aws_credentials ''session_token'' of
        Inl e \<Rightarrow> (Inl e, [])
      | Inr t \<Rightarrow>
     (case Session B k s t of
        Inl e \<Rightarrow> (Inl e, [Call_Session k s t])
      | Inr session \<Rightarrow>
     (case client B session ''ec2'' region of
        Inl e \<Rightarrow> (Inl e, [Call_Session k s t, Call_client ''ec2'' region])
      | Inr ec2_client \<Rightarrow>
     (case describe_instances B ec2_client of
        Inl e \<Rightarrow>
          (Inl e, [Call_Session k s t, Call_client ''ec2'' region, Call_describe_instances])
      | Inr response \<Rightarrow>
          (extract_instances response,
           [Call_Session k s t, Call_client ''ec2'' region, Call_describe_instances])))))))"

definition get_ec2_instances ::
  "('s, 'c) boto3 \<Rightarrow> pyval \<Rightarrow> string \<Rightarrow> (pyval \<times> pyval) \<times> boto3_call list" where
  "get_ec2_instances B aws_credentials region =
     (case get_ec2_instances_try B aws_credentials region of
        (Inr instances, calls) \<Rightarrow> ((PList instances, PNone), calls)
      | (Inl e, calls) \<Rightarrow>
          ((PList [], PStr (''Error getting EC2 instances: '' @ str_exn e)), calls))"


section \<open>Further built-ins used by the sample-large-file scripts\<close>

text \<open>Truth value of a value in a condition, and \<open>len\<close>.\<close>

fun py_truthy :: "pyval \<Rightarrow> bool" where
  "py_truthy PNone = False"
| "py_truthy (PBool b) = b"
| "py_truthy (PInt i) = (i \<noteq> 0)"
| "py_truthy (PFloat m e) = (m \<noteq> 0)"
| "py_truthy (PStr s) = (s \<noteq> [])"
| "py_truthy (PBytes b) = (b \<noteq> [])"
| "py_truthy (PList xs) = (xs \<noteq> [])"
| "py_truthy (PDict kvs) = (kvs \<noteq> [])"
| "py_truthy (PObj cls attrs) = True"
| "py_truthy (PMethod r) = True"

fun py_len :: "pyval \<Rightarrow> exn + nat" where
  "py_len (PStr s) = Inr (length s)"
| "py_len (PBytes b) = Inr (length b)"
| "py_len (PList xs) = Inr (length xs)"
| "py_len (PDict kvs) = Inr (length kvs)"
| "py_len v = Inl (Exn TypeError (''object of type '' @ quoted (type_name v) @ '' has no len()''))"

text \<open>\<open>str(type(v))\<close> as the f-strings print it.\<close>

definition type_str :: "pyval \<Rightarrow> string" where
  "type_str v = ''<class '' @ quoted (type_name v) @ ''>''"

text \<open>Decimal digits of a natural number, as \<open>str\<close> of a non-negative \<open>int\<close>.\<close>

definition digit :: "nat \<Rightarrow> char" where
  "digit d = ''0123456789'' ! d"

fun str_nat :: "nat \<Rightarrow> string" where
  "str_nat n = (if n < 10 then [digit n] else str_nat (n div 10) @ [digit (n mod 10)])"

declare str_nat.simps [simp del]

text \<open>
  \<open>f"{size / (1024*1024):.2f}"\<close>. Dividing by \<open>2^20\<close> is exact in binary floating point
  for sizes below \<open>2^53\<close>, and the format rounds the exact value to two decimals, ties
  to even; the definition computes that with integers.
\<close>

definition format_mb :: "nat \<Rightarrow> string" where
  "format_mb file_size =
     (let q = (file_size * 100) div 1048576;
          r = (file_size * 100) mod 1048576;
          h = (if 2 * r > 1048576 \<or> (2 * r = 1048576 \<and> odd q) then q + 1 else q)
      in str_nat (h div 100) @ ''.'' @ [digit ((h mod 100) div 10), digit (h mod 10)])"

section \<open>sample-large-file/startup.py\<close>

definition VOLUME_CATALOG :: string where "VOLUME_CATALOG = ''example''"
definition VOLUME_SCHEMA :: string where "VOLUME_SCHEMA = ''default''"
definition VOLUME_NAME :: string where "VOLUME_NAME = ''test-volume''"
definition FILE_NAME :: string where "FILE_NAME = ''big.json''"
definition LOCAL_FILE_PATH :: string where "LOCAL_FILE_PATH = ''big.json''"

definition get_volume_path :: string where
  "get_volume_path =
     ''/Volumes/'' @ VOLUME_CATALOG @ ''/'' @ VOLUME_SCHEMA @ ''/'' @ VOLUME_NAME @ ''/'' @ FILE_NAME"

text \<open>
  The local file system maps a path to the bytes of the file there. What the script
  calls and does not define is a parameter: the import of the SDK, the client's
  constructor, \<open>w.files.download\<close>, the built-ins \<open>bytes\<close> and \<open>str\<close> on the response,
  \<open>open(path, 'wb')\<close> (which may be refused) and \<open>dbutils.fs.cp\<close> (a \<open>NameError\<close> where
  \<open>dbutils\<close> is not defined).
\<close>

type_synonym fs = "string \<rightharpoonup> string"

record platform =
  import_WorkspaceClient :: "exn option"
  new_WorkspaceClient :: "exn option"
  files_download :: "string \<Rightarrow> exn + pyval"
  py_bytes :: "pyval \<Rightarrow> exn + pyval"
  py_str :: "pyval \<Rightarrow> string"
  open_wb :: "string \<Rightarrow> exn option"
  dbutils_fs_cp :: "string \<Rightarrow> string \<Rightarrow> fs \<Rightarrow> exn + fs"

text \<open>How a block of statements ends: it falls through with a value, returns, or raises.\<close>

datatype 'a flow = Continue 'a | Return bool | Raise exn

text \<open>
  Lines 52 to 79, the choice of the content. \<open>hasattr\<close> guards each attribute read, so
  the reads cannot raise; the \<open>contents\<close> branch is taken only for a value other than
  \<open>None\<close>. Each result comes with the lines printed.
\<close>

definition contents_is_not_None :: "pyval \<Rightarrow> bool" where
  "contents_is_not_None download_response =
     (case getattr download_response ''contents'' of Inr v \<Rightarrow> v \<noteq> PNone | Inl e \<Rightarrow> False)"

definition read_contents :: "pyval \<Rightarrow> pyval flow \<times> string list" where
  "read_contents binary_content =
     (let out = [''Response has contents attribute (BinaryIO)...'',
                 ''Contents type: '' @ type_str binary_content]
      in if hasattr binary_content ''read'' then
           (case getattr binary_content ''read'' of
              Inl e \<Rightarrow> (Raise e, out)
            | Inr m \<Rightarrow>
                (case call m of
                   Inl e \<Rightarrow> (Raise e, out)
                 | Inr content \<Rightarrow>
                     (case py_len content of
                        Inl e \<Rightarrow> (Raise e, out)
                      | Inr n \<Rightarrow>
                          (Continue content,
                           out @ [''Successfully read '' @ str_nat n @ '' bytes from BinaryIO'']))))
         else (Return False, out @ [''BinaryIO object doesn't have read() method'']))"

definition byte_extraction :: "platform \<Rightarrow> pyval \<Rightarrow> pyval flow \<times> string list" where
  "byte_extraction P download_response =
     (if hasattr download_response ''contents'' \<and> contents_is_not_None download_response then
        (case getattr download_response ''contents'' of
           Inl e \<Rightarrow> (Raise e, [])
         | Inr binary_content \<Rightarrow> read_contents binary_content)
      else if hasattr download_response ''content'' then
        (case getattr download_response ''content'' of
           Inl e \<Rightarrow> (Raise e, [''Response has content attribute...''])
         | Inr content \<Rightarrow> (Continue content, [''Response has content attribute...'']))
      else if hasattr download_response ''body'' then
        (case getattr download_response ''body'' of
           Inl e \<Rightarrow> (Raise e, [''Response has body attribute...''])
         | Inr content \<Rightarrow> (Continue content, [''Response has body attribute...'']))
      else if hasattr download_response ''read'' then
        (case getattr download_response ''read'' of
           Inl e \<Rightarrow> (Raise e, [''Response has read() method, reading content...''])
         | Inr m \<Rightarrow>
             (case call m of
                Inl e \<Rightarrow> (Raise e, [''Response has read() method, reading content...''])
              | Inr content \<Rightarrow>
                  (Continue content, [''Response has read() method, reading content...''])))
      else
        (case py_bytes P download_response of
           Inr content \<Rightarrow>
             (Continue content, [''Unknown response type, trying to convert to bytes...''])
         | Inl e \<Rightarrow>
             (Return False,
              [''Unknown response type, trying to convert to bytes...'',
               ''Failed to convert response to bytes. Response: '' @ py_str P download_response])))"

text \<open>
  Lines 81 to 90. \<open>open(path, 'wb')\<close> creates or empties the file before anything is
  written, and \<open>write\<close> takes bytes only.
\<close>

definition write_local :: "platform \<Rightarrow> pyval \<Rightarrow> fs \<Rightarrow> (exn + bool) \<times> fs \<times> string list" where
  "write_local P content fs =
     (case (if py_truthy content then py_len content else Inr 0) of
        Inl e \<Rightarrow> (Inl e, fs, [])
      | Inr n \<Rightarrow>
          (let out = [''Content type: '' @ type_str content @ '', length: '' @ str_nat n]
           in case open_wb P LOCAL_FILE_PATH of
                Some e \<Rightarrow> (Inl e, fs, out)
              | None \<Rightarrow>
                  (case content of
                     PBytes b \<Rightarrow>
                       (Inr True, fs(LOCAL_FILE_PATH \<mapsto> b),
                        out @ [''Successfully downloaded '' @ FILE_NAME @ '' ('' @
                               format_mb (length b) @ '' MB)''])
                   | _ \<Rightarrow>
                       (Inl (Exn TypeError (''a bytes-like object is required, not '' @
                                            quoted (type_name content))),
                        fs(LOCAL_FILE_PATH \<mapsto> []), out))))"

text \<open>The body of the \<open>try\<close> block, lines 36 to 90.\<close>

definition download_file_from_volume_try ::
  "platform \<Rightarrow> fs \<Rightarrow> (exn + bool) \<times> fs \<times> string list" where
  "download_file_from_volume_try P fs =
     (case import_WorkspaceClient P of
        Some e \<Rightarrow> (Inl e, fs, [])
      | None \<Rightarrow>
     (case new_WorkspaceClient P of
        Some e \<Rightarrow> (Inl e, fs, [''Initializing Databricks SDK...''])
      | None \<Rightarrow>
     (let out = [''Initializing Databricks SDK...'',
                 ''Downloading '' @ get_volume_path @ '' to '' @ LOCAL_FILE_PATH @ ''...'']
      in case files_download P get_volume_path of
           Inl e \<Rightarrow> (Inl e, fs, out)
         | Inr download_response \<Rightarrow>
             (let out' = out @ [''Response type: '' @ type_str download_response]
              in case byte_extraction P download_response of
                   (Raise e, printed) \<Rightarrow> (Inl e, fs, out' @ printed)
                 | (Return b, printed) \<Rightarrow> (Inr b, fs, out' @ printed)
                 | (Continue content, printed) \<Rightarrow>
                     (case write_local P content fs of
                        (r, fs', printed') \<Rightarrow> (r, fs', out' @ printed @ printed'))))))"

text \<open>
  The function with its handlers (lines 92 to 107): an \<open>ImportError\<close> from anywhere in
  the block goes to the \<open>dbutils\<close> fallback, any other exception to the last handler.
  The result is the returned flag, the file system afterwards and the lines printed on
  standard output.
\<close>

definition download_file_from_volume :: "platform \<Rightarrow> fs \<Rightarrow> bool \<times> fs \<times> string list" where
  "download_file_from_volume P fs =
     (case download_file_from_volume_try P fs of
        (Inr b, fs', out) \<Rightarrow> (b, fs', out)
      | (Inl e, fs', out) \<Rightarrow>
          if isinstance_ImportError e then
            (let out' = out @ [''Databricks SDK not available, trying dbutils...'']
             in case dbutils_fs_cp P get_volume_path (''file:/'' @ LOCAL_FILE_PATH) fs' of
                  Inr fs'' \<Rightarrow>
                    (True, fs'',
                     out' @ [''Successfully downloaded '' @ FILE_NAME @ '' using dbutils''])
                | Inl e2 \<Rightarrow> (False, fs', out' @ [''dbutils download failed: '' @ str_exn e2]))
          else (False, fs', out @ [''SDK download failed: '' @ str_exn e]))"


section \<open>sample-large-file/app.py\<close>

subsection \<open>Reading a local file as text\<close>

text \<open>
  The viewer sees a local file through three calls: \<open>os.path.exists\<close>,
  \<open>os.path.getsize\<close> and \<open>open(path, 'r', encoding='utf-8')\<close> followed by
  \<open>read(10240)\<close>. The file system is that of the startup script, a path mapped to the
  bytes of the file. A text read from a file is a list of code points (\<open>codepoints\<close>).

  The read is the one of CPython's text layer: bytes are taken from the file in chunks,
  decoded as UTF-8 by an incremental decoder that keeps an unfinished sequence for the
  next chunk, and passed through the universal-newlines translation (\<open>\r\n\<close> and \<open>\r\<close>
  become \<open>\n\<close>), until the number of characters asked for is there or the file ends.
\<close>

type_synonym codepoints = "nat list"

definition hex_digit :: "nat \<Rightarrow> char" where
  "hex_digit d = ''0123456789abcdef'' ! d"

definition hex_byte :: "nat \<Rightarrow> string" where
  "hex_byte b = ''0x'' @ [hex_digit (b div 16), hex_digit (b mod 16)]"

text \<open>
  The \<open>UnicodeDecodeError\<close> for the bytes from position \<open>start\<close> up to, not including,
  position \<open>stop\<close> of the decoder's input, the first of them being \<open>b\<close>.
\<close>

definition decode_error :: "nat \<Rightarrow> nat \<Rightarrow> nat \<Rightarrow> string \<Rightarrow> exn" where
  "decode_error b start stop reason =
     Exn UnicodeDecodeError
       (quoted ''utf-8'' @ '' codec can't decode '' @
        (if stop = start + 1
         then ''byte '' @ hex_byte b @ '' in position '' @ str_nat start
         else ''bytes in position '' @ str_nat start @ ''-'' @ str_nat (stop - 1)) @
        '': '' @ reason)"

text \<open>
  A lead byte gives the length of its sequence and the range of the second byte;
  \<open>0x80\<close> to \<open>0xC1\<close> and \<open>0xF5\<close> to \<open>0xFF\<close> start no sequence. The ranges exclude
  overlong forms, surrogates and code points above \<open>0x10FFFF\<close>.
\<close>

definition lead :: "nat \<Rightarrow> (nat \<times> nat \<times> nat) option" where
  "lead b =
     (if b < 0x80 then Some (1, 0x80, 0xBF)
      else if 0xC2 \<le> b \<and> b \<le> 0xDF then Some (2, 0x80, 0xBF)
      else if b = 0xE0 then Some (3, 0xA0, 0xBF)
      else if b = 0xED then Some (3, 0x80, 0x9F)
      else if 0xE1 \<le> b \<and> b \<le> 0xEF then Some (3, 0x80, 0xBF)
      else if b = 0xF0 then Some (4, 0x90, 0xBF)
      else if 0xF1 \<le> b \<and> b \<le> 0xF3 then Some (4, 0x80, 0xBF)
      else if b = 0xF4 then Some (4, 0x80, 0x8F)
      else None)"

text \<open>How many of the bytes that follow are valid continuation bytes, from the first on.\<close>

fun valid_continuations :: "nat \<Rightarrow> nat \<Rightarrow> nat list \<Rightarrow> nat" where
  "valid_continuations lo hi [] = 0"
| "valid_continuations lo hi (c # cs) =
     (if lo \<le> c \<and> c \<le> hi then Suc (valid_continuations 0x80 0xBF cs) else 0)"

definition code_point :: "nat \<Rightarrow> nat \<Rightarrow> nat list \<Rightarrow> nat" where
  "code_point n b conts =
     foldl (\<lambda>acc c. acc * 64 + c mod 64)
       (if n = 1 then b else if n = 2 then b mod 32 else if n = 3 then b mod 16 else b mod 8)
       conts"

text \<open>
  The decoder on its input (the bytes kept from the last call followed by the new
  chunk), from position \<open>pos\<close> on: the characters and the unfinished sequence kept at
  the end, or the error. At the end of the file (\<open>final\<close>) an unfinished sequence is an
  error.
\<close>

fun utf8_decode :: "nat \<Rightarrow> nat list \<Rightarrow> bool \<Rightarrow> exn + (codepoints \<times> nat list)" where
  "utf8_decode pos [] final = Inr ([], [])"
| "utf8_decode pos (b # bs) final =
     (case lead b of
        None \<Rightarrow> Inl (decode_error b pos (pos + 1) ''invalid start byte'')
      | Some (n, lo, hi) \<Rightarrow>
          if valid_continuations lo hi (take (n - 1) bs) < length (take (n - 1) bs) then
            Inl (decode_error b pos (pos + 1 + valid_continuations lo hi (take (n - 1) bs))
                   ''invalid continuation byte'')
          else if length (take (n - 1) bs) < n - 1 then
            (if final then
               Inl (decode_error b pos (pos + 1 + length bs) ''unexpected end of data'')
             else Inr ([], b # bs))
          else
            (case utf8_decode (pos + n) (drop (n - 1) bs) final of
               Inl e \<Rightarrow> Inl e
             | Inr (chars, kept) \<Rightarrow> Inr (code_point n b (take (n - 1) bs) # chars, kept)))"

text \<open>\<open>\r\n\<close> and \<open>\r\<close> become \<open>\n\<close>.\<close>

fun translate_newlines :: "codepoints \<Rightarrow> codepoints" where
  "translate_newlines [] = []"
| "translate_newlines [c] = [if c = 13 then 10 else c]"
| "translate_newlines (c # d # cs) =
     (if c = 13 \<and> d = 10 then 10 # translate_newlines cs
      else if c = 13 then 10 # translate_newlines (d # cs)
      else c # translate_newlines (d # cs))"

text \<open>
  The state between chunks: the bytes of an unfinished sequence, and whether a \<open>\r\<close>
  at the end of the last chunk is held back until it is known what follows it.
\<close>

record decoder =
  kept_bytes :: "nat list"
  pendingcr :: bool

definition decode :: "decoder \<Rightarrow> string \<Rightarrow> bool \<Rightarrow> exn + (codepoints \<times> decoder)" where
  "decode st input final =
     (case utf8_decode 0 (kept_bytes st @ map of_char input) final of
        Inl e \<Rightarrow> Inl e
      | Inr (output, kept) \<Rightarrow>
          (let prefixed = pendingcr st \<and> (final \<or> output \<noteq> []);
               output' = (if prefixed then 13 # output else output);
               held = (\<not> final \<and> output' \<noteq> [] \<and> last output' = 13)
           in Inr (translate_newlines (if held then butlast output' else output'),
                   \<lparr>kept_bytes = kept,
                    pendingcr = (held \<or> pendingcr st \<and> \<not> prefixed)\<rparr>)))"

text \<open>
  The number of bytes asked for in a chunk is at least 8192 and at least an estimate of
  the bytes needed for the characters still missing: their number times the ratio of
  bytes to characters in the chunk previous, where that ratio is above one. CPython
  computes this product in floating point; it is the parameter \<open>float_hint\<close>.
\<close>

definition size_hint :: "(nat \<Rightarrow> nat \<Rightarrow> nat \<Rightarrow> nat) \<Rightarrow> (nat \<times> nat) option \<Rightarrow> nat \<Rightarrow> nat" where
  "size_hint float_hint previous remaining =
     (case previous of
        None \<Rightarrow> remaining
      | Some (nbytes, nchars) \<Rightarrow>
          if nchars = 0 \<or> nbytes \<le> nchars then remaining
          else float_hint nbytes nchars remaining)"

text \<open>
  \<open>read(n)\<close>: chunks are read and decoded while characters are missing; an empty chunk
  is the end of the file, where the decoder is flushed. A local file gives as many
  bytes as are asked for, as long as it has them.
\<close>

function read_chunks ::
  "(nat \<Rightarrow> nat \<Rightarrow> nat \<Rightarrow> nat) \<Rightarrow> string \<Rightarrow> decoder \<Rightarrow> (nat \<times> nat) option \<Rightarrow> codepoints \<Rightarrow> nat \<Rightarrow>
   exn + codepoints" where
  "read_chunks float_hint rest st previous result remaining =
     (if remaining = 0 then Inr result
      else
        (case decode st (take (max 8192 (size_hint float_hint previous remaining)) rest)
                (take (max 8192 (size_hint float_hint previous remaining)) rest = []) of
           Inl e \<Rightarrow> Inl e
         | Inr (chars, st') \<Rightarrow>
             if take (max 8192 (size_hint float_hint previous remaining)) rest = [] then
               Inr (result @ take remaining chars)
             else
               read_chunks float_hint
                 (drop (max 8192 (size_hint float_hint previous remaining)) rest) st'
                 (Some (length (take (max 8192 (size_hint float_hint previous remaining)) rest),
                        length chars))
                 (result @ take remaining chars)
                 (remaining - length (take remaining chars))))"
  by pat_completeness auto
termination
  by (relation "measure (\<lambda>(float_hint, rest, st, previous, result, remaining). length rest)") auto

declare read_chunks.simps [simp del]

definition no_such_file :: "string \<Rightarrow> exn" where
  "no_such_file path =
     Exn FileNotFoundError (''[Errno 2] No such file or directory: '' @ quoted path)"

definition os_path_exists :: "fs \<Rightarrow> string \<Rightarrow> bool" where
  "os_path_exists fs path = (fs path \<noteq> None)"

definition os_path_getsize :: "fs \<Rightarrow> string \<Rightarrow> exn + nat" where
  "os_path_getsize fs path =
     (case fs path of None \<Rightarrow> Inl (no_such_file path) | Some bytes \<Rightarrow> Inr (length bytes))"

definition open_read ::
  "(nat \<Rightarrow> nat \<Rightarrow> nat \<Rightarrow> nat) \<Rightarrow> fs \<Rightarrow> string \<Rightarrow> nat \<Rightarrow> exn + codepoints" where
  "open_read float_hint fs path n =
     (case fs path of
        None \<Rightarrow> Inl (no_such_file path)
      | Some bytes \<Rightarrow>
          read_chunks float_hint bytes \<lparr>kept_bytes = [], pendingcr = False\<rparr> None [] n)"

subsection \<open>The script\<close>

text \<open>
  What the script does, in order: the widgets it declares (the name of the \<open>st\<close>
  function and its arguments, or the text read from the file that it shows) and its
  calls on the file system.
\<close>

datatype effect =
    St string "pyval list"
  | St_text string codepoints
  | Os_path_exists string bool
  | Os_path_getsize string
  | Open_read string nat

definition local_json_file :: string where
  "local_json_file = ''big.json''"

text \<open>Lines 43 to 51.\<close>

definition data_analysis :: "pyval \<Rightarrow> effect list" where
  "data_analysis sample_data =
     (case sample_data of
        PDict kvs \<Rightarrow>
          [St ''write'' [PStr (''**Type:** Dictionary with '' @ str_nat (length kvs) @ '' keys'')],
           St ''write'' [PStr ''**Keys:**'', PList (take 10 (map (\<lambda>kv. PStr (fst kv)) kvs))]]
      | PList xs \<Rightarrow>
          St ''write'' [PStr (''**Type:** List with '' @ str_nat (length xs) @ '' items'')] #
          (case xs of
             [] \<Rightarrow> []
           | x # rest \<Rightarrow> [St ''write'' [PStr ''**First item type:**'', PStr (type_name x)]])
      | _ \<Rightarrow> [St ''write'' [PStr (''**Type:** '' @ type_name sample_data)]])"

text \<open>The argument of \<open>st.code\<close> on line 55.\<close>

definition raw_display :: "codepoints \<Rightarrow> codepoints" where
  "raw_display sample_content =
     (if length sample_content > 1000 then take 1000 sample_content @ map of_char ''...''
      else sample_content)"

text \<open>
  Lines 32 to 55, the inner \<open>try\<close>: \<open>json.loads\<close> is a parameter; only its
  \<open>JSONDecodeError\<close> is handled here, any other exception leaves the block.
\<close>

definition parse_sample :: "(codepoints \<Rightarrow> exn + pyval) \<Rightarrow> codepoints \<Rightarrow> effect list \<times> exn option" where
  "parse_sample json_loads sample_content =
     (case json_loads sample_content of
        Inr sample_data \<Rightarrow>
          ([St ''success'' [PStr ''Successfully parsed JSON sample''],
            St ''subheader'' [PStr ''Sample Data Structure''],
            St ''json'' [sample_data],
            St ''subheader'' [PStr ''Data Analysis'']] @ data_analysis sample_data, None)
      | Inl e \<Rightarrow>
          if isinstance_JSONDecodeError e then
            ([St ''warning'' [PStr ''Could not parse as complete JSON, showing raw content''],
              St_text ''code'' (raw_display sample_content)], None)
          else ([], Some e))"

text \<open>Lines 22 to 58, the outer \<open>try\<close> with its handler.\<close>

definition read_and_preview ::
  "(nat \<Rightarrow> nat \<Rightarrow> nat \<Rightarrow> nat) \<Rightarrow> (codepoints \<Rightarrow> exn + pyval) \<Rightarrow> fs \<Rightarrow> effect list" where
  "read_and_preview float_hint json_loads fs =
     [St ''subheader'' [PStr ''Reading JSON file...''], Open_read local_json_file 10240] @
     (case open_read float_hint fs local_json_file 10240 of
        Inl e \<Rightarrow> [St ''error'' [PStr (''Error reading file: '' @ str_exn e)]]
      | Inr sample_content \<Rightarrow>
          St ''success'' [PStr ''Successfully read sample content from JSON file''] #
          (case parse_sample json_loads sample_content of
             (shown, None) \<Rightarrow> shown
           | (shown, Some e) \<Rightarrow>
               shown @ [St ''error'' [PStr (''Error reading file: '' @ str_exn e)]]))"

text \<open>Lines 65 to 71.\<close>

definition download_status :: "fs \<Rightarrow> effect list" where
  "download_status fs =
     [St ''subheader'' [PStr ''File Download Status''],
      Os_path_exists local_json_file (os_path_exists fs local_json_file)] @
     (if os_path_exists fs local_json_file then
        [St ''success'' [PStr ''File was successfully downloaded from Volume''],
         St ''info'' [PStr ''This proves the Volume access and file download workflow is working!'']]
      else
        [St ''error'' [PStr ''File download failed or file not found''],
         St ''info'' [PStr ''Check the startup logs for download errors'']])"

text \<open>
  The whole script: its effects, and the exception that ends it if one is not caught
  (\<open>os.path.getsize\<close> on line 19 stands outside the \<open>try\<close>).
\<close>

definition app ::
  "(nat \<Rightarrow> nat \<Rightarrow> nat \<Rightarrow> nat) \<Rightarrow> (codepoints \<Rightarrow> exn + pyval) \<Rightarrow> fs \<Rightarrow> effect list \<times> exn option" where
  "app float_hint json_loads fs =
     (let start =
            [St ''set_page_config'' [PStr ''wide''],
             St ''header'' [PStr ''Big JSON File Reader''],
             St ''info'' [PStr ''Reading sample data from downloaded big.json file''],
             Os_path_exists local_json_file (os_path_exists fs local_json_file)]
      in if os_path_exists fs local_json_file then
           (let found =
                  [St ''success'' [PStr (''Found local file: '' @ local_json_file)],
                   Os_path_getsize local_json_file]
            in case os_path_getsize fs local_json_file of
                 Inl e \<Rightarrow> (start @ found, Some e)
               | Inr file_size \<Rightarrow>
                   (start @ found @
                    [St ''info'' [PStr (''File size: '' @ format_mb file_size @ '' MB'')]] @
                    read_and_preview float_hint json_loads fs @ download_status fs, None))
         else
           (start @
            [St ''error'' [PStr (''Local file not found: '' @ local_json_file)],
             St ''info'' [PStr ''Make sure the startup script successfully downloaded the file from Volume'']] @
            download_status fs, None))"


section \<open>Notions the properties are stated with\<close>

subsection \<open>The shape of a describe-instances response\<close>

text \<open>
  A response is a dictionary whose \<open>Reservations\<close> is a list of dictionaries, each with
  a list \<open>Instances\<close> of dictionaries, each with an \<open>InstanceId\<close> and possibly a list
  \<open>Tags\<close> of dictionaries with a \<open>Key\<close> and a \<open>Value\<close>. Other keys may be present
  at every level.
\<close>

fun field :: "pyval \<Rightarrow> string \<Rightarrow> pyval option" where
  "field (PDict kvs) key = map_of kvs key"
| "field v key = None"

fun elems :: "pyval option \<Rightarrow> pyval list" where
  "elems (Some (PList xs)) = xs"
| "elems v = []"

fun is_list :: "pyval option \<Rightarrow> bool" where
  "is_list (Some (PList xs)) = True"
| "is_list v = False"

definition is_tag :: "pyval \<Rightarrow> bool" where
  "is_tag tag = (field tag ''Key'' \<noteq> None \<and> field tag ''Value'' \<noteq> None)"

definition is_instance :: "pyval \<Rightarrow> bool" where
  "is_instance inst =
     (field inst ''InstanceId'' \<noteq> None \<and>
      (field inst ''Tags'' = None \<or>
       is_list (field inst ''Tags'') \<and> list_all is_tag (elems (field inst ''Tags''))))"

definition is_reservation :: "pyval \<Rightarrow> bool" where
  "is_reservation reservation =
     (is_list (field reservation ''Instances'') \<and>
      list_all is_instance (elems (field reservation ''Instances'')))"

definition is_describe_instances_response :: "pyval \<Rightarrow> bool" where
  "is_describe_instances_response response =
     (is_list (field response ''Reservations'') \<and>
      list_all is_reservation (elems (field response ''Reservations'')))"

text \<open>All instances of a response, reservation by reservation, and the tags of one.\<close>

definition all_instances :: "pyval \<Rightarrow> pyval list" where
  "all_instances response =
     concat (map (\<lambda>reservation. elems (field reservation ''Instances''))
                 (elems (field response ''Reservations'')))"

definition tag_list :: "pyval \<Rightarrow> pyval list" where
  "tag_list inst = elems (field inst ''Tags'')"

definition has_key_Name :: "pyval \<Rightarrow> bool" where
  "has_key_Name tag = (field tag ''Key'' = Some (PStr ''Name''))"

text \<open>
  What the specification asks of the record for an instance: the two fields, the name
  being the value of some tag with key \<open>Name\<close> if there is one and \<open>N/A\<close> if not.
\<close>

definition name_as_specified :: "pyval \<Rightarrow> pyval \<Rightarrow> bool" where
  "name_as_specified inst name =
     (if \<exists>tag \<in> set (tag_list inst). has_key_Name tag
      then \<exists>tag \<in> set (tag_list inst). has_key_Name tag \<and> field tag ''Value'' = Some name
      else name = PStr ''N/A'')"

definition record_as_specified :: "pyval \<Rightarrow> pyval \<Rightarrow> bool" where
  "record_as_specified inst info =
     (case info of
        PDict [(k1, name), (k2, iid)] \<Rightarrow>
          k1 = ''Name'' \<and> k2 = ''Instance ID'' \<and> field inst ''InstanceId'' = Some iid \<and>
          name_as_specified inst name
      | _ \<Rightarrow> False)"

text \<open>The record with the value of the first tag whose key is \<open>Name\<close>.\<close>

definition or_None :: "pyval option \<Rightarrow> pyval" where
  "or_None v = (case v of Some x \<Rightarrow> x | None \<Rightarrow> PNone)"

definition first_name :: "pyval list \<Rightarrow> pyval" where
  "first_name tags =
     (case find has_key_Name tags of
        None \<Rightarrow> PStr ''N/A''
      | Some tag \<Rightarrow> or_None (field tag ''Value''))"

definition first_name_record :: "pyval \<Rightarrow> pyval" where
  "first_name_record inst =
     PDict [(''Name'', first_name (tag_list inst)),
            (''Instance ID'', or_None (field inst ''InstanceId''))]"

text \<open>The SDK calls of \<open>get_ec2_instances\<close> all succeed and the last returns \<open>response\<close>.\<close>

definition describes :: "('s, 'c) boto3 \<Rightarrow> pyval \<Rightarrow> string \<Rightarrow> pyval \<Rightarrow> bool" where
  "describes B aws_credentials region response =
     (case (subscript aws_credentials ''access_key_id'',
            subscript aws_credentials ''secret_access_key'',
            subscript aws_credentials ''session_token'') of
        (Inr k, Inr s, Inr t) \<Rightarrow>
          (case Session B k s t of
             Inr session \<Rightarrow>
               (case client B session ''ec2'' region of
                  Inr ec2_client \<Rightarrow> describe_instances B ec2_client = Inr response
                | Inl e \<Rightarrow> False)
           | Inl e \<Rightarrow> False)
      | _ \<Rightarrow> False)"

text \<open>One of the SDK calls of \<open>get_ec2_instances\<close> raises \<open>e\<close>, those before it succeeding.\<close>

definition boto3_raises :: "('s, 'c) boto3 \<Rightarrow> pyval \<Rightarrow> string \<Rightarrow> exn \<Rightarrow> bool" where
  "boto3_raises B aws_credentials region e =
     (case (subscript aws_credentials ''access_key_id'',
            subscript aws_credentials ''secret_access_key'',
            subscript aws_credentials ''session_token'') of
        (Inr k, Inr s, Inr t) \<Rightarrow>
          (case Session B k s t of
             Inl e1 \<Rightarrow> e1 = e
           | Inr session \<Rightarrow>
               (case client B session ''ec2'' region of
                  Inl e2 \<Rightarrow> e2 = e
                | Inr ec2_client \<Rightarrow> describe_instances B ec2_client = Inl e))
      | _ \<Rightarrow> False)"

text \<open>
  The response carries AWS credentials: an \<open>aws_temp_credentials\<close> attribute whose value
  has the three attributes the function reads.
\<close>

definition has_aws_credentials :: "pyval \<Rightarrow> bool" where
  "has_aws_credentials response =
     (case getattr response ''aws_temp_credentials'' of
        Inr aws_creds \<Rightarrow>
          hasattr aws_creds ''access_key_id'' \<and> hasattr aws_creds ''secret_access_key'' \<and>
          hasattr aws_creds ''session_token''
      | Inl e \<Rightarrow> False)"


subsection \<open>The sources of the downloaded content\<close>

datatype source = From_contents | From_content | From_body | From_read | From_bytes

text \<open>
  The specification's order: the first attribute that is present, then the conversion.
\<close>

definition first_present :: "pyval \<Rightarrow> source" where
  "first_present download_response =
     (if hasattr download_response ''contents'' then From_contents
      else if hasattr download_response ''content'' then From_content
      else if hasattr download_response ''body'' then From_body
      else if hasattr download_response ''read'' then From_read
      else From_bytes)"

text \<open>The same order where a \<open>contents\<close> attribute holding \<open>None\<close> counts as absent.\<close>

definition first_usable :: "pyval \<Rightarrow> source" where
  "first_usable download_response =
     (if hasattr download_response ''contents'' \<and> contents_is_not_None download_response
      then From_contents
      else if hasattr download_response ''content'' then From_content
      else if hasattr download_response ''body'' then From_body
      else if hasattr download_response ''read'' then From_read
      else From_bytes)"

text \<open>The line each branch prints first, and the value each source stands for.\<close>

fun branch_line :: "source \<Rightarrow> string" where
  "branch_line From_contents = ''Response has contents attribute (BinaryIO)...''"
| "branch_line From_content = ''Response has content attribute...''"
| "branch_line From_body = ''Response has body attribute...''"
| "branch_line From_read = ''Response has read() method, reading content...''"
| "branch_line From_bytes = ''Unknown response type, trying to convert to bytes...''"

definition read_of :: "pyval \<Rightarrow> exn + pyval" where
  "read_of v = (case getattr v ''read'' of Inl e \<Rightarrow> Inl e | Inr m \<Rightarrow> call m)"

fun source_value :: "platform \<Rightarrow> pyval \<Rightarrow> source \<Rightarrow> exn + pyval" where
  "source_value P r From_contents =
     (case getattr r ''contents'' of Inl e \<Rightarrow> Inl e | Inr stream \<Rightarrow> read_of stream)"
| "source_value P r From_content = getattr r ''content''"
| "source_value P r From_body = getattr r ''body''"
| "source_value P r From_read = read_of r"
| "source_value P r From_bytes = py_bytes P r"

text \<open>The download reaches the response \<open>r\<close>: import, constructor and call succeed.\<close>

definition downloads :: "platform \<Rightarrow> pyval \<Rightarrow> bool" where
  "downloads P r =
     (import_WorkspaceClient P = None \<and> new_WorkspaceClient P = None \<and>
      files_download P get_volume_path = Inr r)"

text \<open>
  The import of the SDK, the constructor or the download call raises \<open>e\<close>, what comes
  before it succeeding.
\<close>

definition sdk_raises :: "platform \<Rightarrow> exn \<Rightarrow> bool" where
  "sdk_raises P e =
     (import_WorkspaceClient P = Some e \<or>
      import_WorkspaceClient P = None \<and>
      (new_WorkspaceClient P = Some e \<or>
       new_WorkspaceClient P = None \<and> files_download P get_volume_path = Inl e))"

text \<open>
  The \<open>read()\<close> call of the chosen stream raises \<open>e\<close>: the stream is the \<open>contents\<close>
  object (which has a \<open>read\<close>) or the response itself.
\<close>

definition read_raises :: "pyval \<Rightarrow> exn \<Rightarrow> bool" where
  "read_raises r e =
     (case first_usable r of
        From_contents \<Rightarrow>
          (case getattr r ''contents'' of
             Inr stream \<Rightarrow> hasattr stream ''read'' \<and> read_of stream = Inl e
           | Inl e' \<Rightarrow> False)
      | From_read \<Rightarrow> read_of r = Inl e
      | _ \<Rightarrow> False)"

text \<open>The content is bytes and \<open>open(LOCAL_FILE_PATH, 'wb')\<close> raises \<open>e\<close>.\<close>

definition open_raises :: "platform \<Rightarrow> pyval \<Rightarrow> exn \<Rightarrow> bool" where
  "open_raises P r e =
     (case source_value P r (first_usable r) of
        Inr (PBytes b) \<Rightarrow> open_wb P LOCAL_FILE_PATH = Some e
      | _ \<Rightarrow> False)"

text \<open>
  One of the external calls in the \<open>try\<close> block of \<open>download_file_from_volume\<close> raises
  \<open>e\<close>: the import, the constructor, the download, the stream's \<open>read()\<close> or \<open>open\<close>.
\<close>

definition external_call_raises :: "platform \<Rightarrow> exn \<Rightarrow> bool" where
  "external_call_raises P e =
     (sdk_raises P e \<or>
      import_WorkspaceClient P = None \<and> new_WorkspaceClient P = None \<and>
      (case files_download P get_volume_path of
         Inr r \<Rightarrow> read_raises r e \<or> open_raises P r e
       | Inl e' \<Rightarrow> False))"

subsection \<open>Plain text files\<close>


fun is_Open_read :: "effect \<Rightarrow> bool" where
  "is_Open_read (Open_read path n) = True"
| "is_Open_read e = False"

fun is_Os_path_exists :: "effect \<Rightarrow> bool" where
  "is_Os_path_exists (Os_path_exists path b) = True"
| "is_Os_path_exists e = False"

section \<open>Concrete inputs\<close>

text \<open>A response with two reservations and three instances, and an SDK that returns it.\<close>

definition example_instance_1 :: pyval where
  "example_instance_1 =
     PDict [(''InstanceId'', PStr ''i-0a1''), (''InstanceType'', PStr ''t3.micro''),
            (''Tags'', PList [PDict [(''Key'', PStr ''env''), (''Value'', PStr ''prod'')],
                              PDict [(''Key'', PStr ''Name''), (''Value'', PStr ''web'')],
                              PDict [(''Key'', PStr ''Name''), (''Value'', PStr ''spare'')]])]"

definition example_instance_2 :: pyval where
  "example_instance_2 = PDict [(''InstanceId'', PStr ''i-0b2'')]"

definition example_instance_3 :: pyval where
  "example_instance_3 =
     PDict [(''InstanceId'', PStr ''i-0c3''),
            (''Tags'', PList [PDict [(''Key'', PStr ''team''), (''Value'', PStr ''data'')]])]"

definition example_response :: pyval where
  "example_response =
     PDict [(''Reservations'',
             PList [PDict [(''ReservationId'', PStr ''r-1''),
                           (''Instances'', PList [example_instance_1, example_instance_2])],
                    PDict [(''Instances'', PList [example_instance_3])]]),
            (''ResponseMetadata'', PDict [])]"

definition example_boto3 :: "(unit, unit) boto3" where
  "example_boto3 =
     \<lparr>Session = (\<lambda>k s t. Inr ()), client = (\<lambda>session service region. Inr ()),
      describe_instances = (\<lambda>ec2_client. Inr example_response)\<rparr>"

definition example_credentials :: pyval where
  "example_credentials =
     PDict [(''access_key_id'', PStr ''ASIAEXAMPLE''), (''secret_access_key'', PStr ''secret''),
            (''session_token'', PStr ''token'')]"

text \<open>An SDK whose \<open>describe_instances\<close> raises.\<close>

definition example_boto3_denied :: "(unit, unit) boto3" where
  "example_boto3_denied =
     \<lparr>Session = (\<lambda>k s t. Inr ()), client = (\<lambda>session service region. Inr ()),
      describe_instances = (\<lambda>ec2_client. Inl (Exn OtherException ''UnauthorizedOperation''))\<rparr>"

text \<open>
  Credential services with a fixed outcome, and three responses: one with AWS
  credentials, one whose \<open>aws_temp_credentials\<close> is \<open>None\<close> (a credential of another
  cloud), one without the attribute.
\<close>

definition databricks_returning :: "exn + pyval \<Rightarrow> databricks" where
  "databricks_returning result =
     \<lparr>generate_temporary_service_credential = (\<lambda>wc name. result)\<rparr>"

definition example_aws_response :: pyval where
  "example_aws_response =
     PObj ''TemporaryCredentials''
       [(''aws_temp_credentials'',
         PObj ''AwsCredentials''
           [(''access_key_id'', PStr ''ASIAEXAMPLE''), (''secret_access_key'', PStr ''secret''),
            (''session_token'', PStr ''token'')]),
        (''expiration_time'', PInt 1767225600000)]"

definition example_azure_response :: pyval where
  "example_azure_response =
     PObj ''TemporaryCredentials''
       [(''aws_temp_credentials'', PNone),
        (''azure_ad'', PObj ''AzureActiveDirectoryToken'' [(''aad_token'', PStr ''eyJ0'')]),
        (''expiration_time'', PInt 1767225600000)]"

definition example_bare_response :: pyval where
  "example_bare_response = PObj ''Response'' []"

text \<open>
  Platforms for the download whose \<open>w.files.download\<close> has a fixed outcome; \<open>dbutils\<close>
  is undefined in the first and copies the file in the second.
\<close>

definition platform_returning :: "exn + pyval \<Rightarrow> platform" where
  "platform_returning result =
     \<lparr>import_WorkspaceClient = None, new_WorkspaceClient = None,
      files_download = (\<lambda>path. result),
      py_bytes = (\<lambda>v. Inl (Exn TypeError
                   (''cannot convert '' @ quoted (type_name v) @ '' object to bytes''))),
      py_str = (\<lambda>v. ''<'' @ type_name v @ '' object>''),
      open_wb = (\<lambda>path. None),
      dbutils_fs_cp = (\<lambda>src dst fs. Inl (Exn NameError ''name 'dbutils' is not defined''))\<rparr>"

definition platform_with_dbutils :: "exn + pyval \<Rightarrow> platform" where
  "platform_with_dbutils result =
     \<lparr>import_WorkspaceClient = None, new_WorkspaceClient = None,
      files_download = (\<lambda>path. result),
      py_bytes = (\<lambda>v. Inl (Exn TypeError
                   (''cannot convert '' @ quoted (type_name v) @ '' object to bytes''))),
      py_str = (\<lambda>v. ''<'' @ type_name v @ '' object>''),
      open_wb = (\<lambda>path. None),
      dbutils_fs_cp = (\<lambda>src dst fs. Inr (fs(''/big.json'' \<mapsto> ''[1, 2]'')))\<rparr>"

definition response_contents_None :: pyval where
  "response_contents_None =
     PObj ''DownloadResponse'' [(''contents'', PNone), (''content'', PBytes ''[1, 2]'')]"

definition response_stream :: pyval where
  "response_stream =
     PObj ''DownloadResponse''
       [(''contents'', PObj ''BufferedReader'' [(''read'', PMethod (Inr (PBytes ''[1, 2]'')))])]"

definition response_closed :: pyval where
  "response_closed = PObj ''DownloadResponse'' [(''contents'', PObj ''Handle'' [])]"

definition response_unknown :: pyval where
  "response_unknown = PObj ''Unknown'' []"

definition response_broken_stream :: pyval where
  "response_broken_stream =
     PObj ''DownloadResponse''
       [(''contents'',
         PObj ''BufferedReader''
           [(''read'', PMethod (Inl (Exn OSError ''Connection reset by peer'')))])]"

text \<open>A platform on which the local file cannot be opened for writing.\<close>

definition platform_read_only :: "exn + pyval \<Rightarrow> platform" where
  "platform_read_only result =
     \<lparr>import_WorkspaceClient = None, new_WorkspaceClient = None,
      files_download = (\<lambda>path. result),
      py_bytes = (\<lambda>v. Inl (Exn TypeError
                   (''cannot convert '' @ quoted (type_name v) @ '' object to bytes''))),
      py_str = (\<lambda>v. ''<'' @ type_name v @ '' object>''),
      open_wb = (\<lambda>path. Some (Exn OSError ''[Errno 30] Read-only file system'')),
      dbutils_fs_cp = (\<lambda>src dst fs. Inl (Exn NameError ''name 'dbutils' is not defined''))\<rparr>"

text \<open>
  For the viewer: a parser that rejects every sample, the size estimate computed
  exactly, two plain files that agree on their first 10240 characters, and two files
  that start with the same 10240 characters, an \<open>e\<close> with an acute accent (two bytes)
  and 10239 digits, followed by a letter in one and by the byte \<open>0xFF\<close> in the other.
\<close>

definition json_rejecting :: "codepoints \<Rightarrow> exn + pyval" where
  "json_rejecting s = Inl (Exn JSONDecodeError ''Expecting value: line 1 column 1 (char 0)'')"

definition exact_hint :: "nat \<Rightarrow> nat \<Rightarrow> nat \<Rightarrow> nat" where
  "exact_hint nbytes nchars remaining = (nbytes * remaining) div nchars"


section \<open>Properties of get_ec2_instances\<close>

lemma hasattr_getattr: "hasattr v name \<longleftrightarrow> (\<exists>x. getattr v name = Inr x)"
  by (cases v) (auto split: option.splits)

lemma tags_loop_is_tag:
  "list_all is_tag tags \<Longrightarrow>
   tags_loop tags n0 =
     Inr (case find has_key_Name tags of None \<Rightarrow> n0 | Some tag \<Rightarrow> or_None (field tag ''Value''))"
proof (induction tags)
  case Nil
  then show ?case by simp
next
  case (Cons tag tags)
  from Cons.prems have t: "is_tag tag" and ts: "list_all is_tag tags" by simp_all
  from t obtain kvs k v where tag: "tag = PDict kvs" and k: "map_of kvs ''Key'' = Some k"
    and v: "map_of kvs ''Value'' = Some v"
    by (cases tag) (auto simp: is_tag_def)
  show ?case
    using Cons.IH [OF ts] tag k v by (simp add: has_key_Name_def or_None_def)
qed

lemma instance_info_is_instance:
  assumes "is_instance inst"
  shows "instance_info inst = Inr (first_name_record inst)"
proof -
  from assms obtain kvs iid where inst: "inst = PDict kvs"
    and iid: "map_of kvs ''InstanceId'' = Some iid"
    by (cases inst) (auto simp: is_instance_def)
  show ?thesis
  proof (cases "map_of kvs ''Tags''")
    case None
    then show ?thesis using inst iid
      by (simp add: instance_info_def first_name_record_def first_name_def tag_list_def or_None_def)
  next
    case (Some tv)
    with assms inst obtain tags where tv: "tv = PList tags" and ts: "list_all is_tag tags"
      by (cases tv) (auto simp: is_instance_def)
    show ?thesis using inst iid Some tv tags_loop_is_tag [OF ts, of "PStr ''N/A''"]
      by (simp add: instance_info_def first_name_record_def first_name_def tag_list_def or_None_def)
  qed
qed

lemma instances_loop_is_instance:
  "list_all is_instance insts \<Longrightarrow>
   instances_loop insts acc = Inr (acc @ map first_name_record insts)"
  by (induction insts arbitrary: acc) (simp_all add: instance_info_is_instance)

lemma reservations_loop_is_reservation:
  "list_all is_reservation rs \<Longrightarrow>
   reservations_loop rs acc =
     Inr (acc @ map first_name_record
                  (concat (map (\<lambda>reservation. elems (field reservation ''Instances'')) rs)))"
proof (induction rs arbitrary: acc)
  case Nil
  then show ?case by simp
next
  case (Cons r rs)
  from Cons.prems have r: "is_reservation r" and rs: "list_all is_reservation rs" by simp_all
  from r obtain kvs insts where rd: "r = PDict kvs"
    and i: "map_of kvs ''Instances'' = Some (PList insts)"
    and wf: "list_all is_instance insts"
    by (cases r; cases "field r ''Instances''"; cases "the (field r ''Instances'')")
       (auto simp: is_reservation_def)
  show ?case using rd i Cons.IH [OF rs] instances_loop_is_instance [OF wf]
    by simp
qed

lemma extract_instances_response:
  assumes "is_describe_instances_response response"
  shows "extract_instances response = Inr (map first_name_record (all_instances response))"
proof -
  from assms obtain kvs rs where rd: "response = PDict kvs"
    and i: "map_of kvs ''Reservations'' = Some (PList rs)"
    and wf: "list_all is_reservation rs"
    by (cases response; cases "field response ''Reservations''";
        cases "the (field response ''Reservations'')")
       (auto simp: is_describe_instances_response_def)
  show ?thesis using rd i reservations_loop_is_reservation [OF wf, of "[]"]
    by (simp add: extract_instances_def all_instances_def)
qed

lemma get_ec2_instances_describes:
  assumes "describes B aws_credentials region response"
  shows "fst (get_ec2_instances B aws_credentials region) =
     (case extract_instances response of
        Inr instances \<Rightarrow> (PList instances, PNone)
      | Inl e \<Rightarrow> (PList [], PStr (''Error getting EC2 instances: '' @ str_exn e)))"
  using assms
  by (auto simp: describes_def get_ec2_instances_def get_ec2_instances_try_def
      split: sum.splits prod.splits)

lemma find_Some_member: "find P xs = Some x \<Longrightarrow> x \<in> set xs \<and> P x"
  by (induction xs) (auto split: if_splits)

lemma is_instance_tags:
  assumes "is_instance inst"
  shows "list_all is_tag (tag_list inst)"
  using assms by (cases "field inst ''Tags''") (auto simp: is_instance_def tag_list_def)

lemma first_name_record_as_specified:
  assumes "is_instance inst"
  shows "record_as_specified inst (first_name_record inst)"
proof -
  from assms obtain iid where iid: "field inst ''InstanceId'' = Some iid"
    by (auto simp: is_instance_def)
  have "name_as_specified inst (first_name (tag_list inst))"
  proof (cases "find has_key_Name (tag_list inst)")
    case None
    then have "\<not> (\<exists>tag \<in> set (tag_list inst). has_key_Name tag)"
      by (simp add: find_None_iff)
    with None show ?thesis
      by (simp add: name_as_specified_def first_name_def)
  next
    case (Some tag)
    from find_Some_member [OF Some] have m: "tag \<in> set (tag_list inst)" and n: "has_key_Name tag"
      by simp_all
    from is_instance_tags [OF assms] m have "is_tag tag" by (simp add: list_all_iff)
    then obtain v where "field tag ''Value'' = Some v" by (auto simp: is_tag_def)
    with Some m n show ?thesis
      by (auto simp: name_as_specified_def first_name_def or_None_def)
  qed
  with iid show ?thesis
    by (simp add: record_as_specified_def first_name_record_def or_None_def)
qed

lemma all_instances_are_instances:
  assumes "is_describe_instances_response response"
  shows "list_all is_instance (all_instances response)"
  using assms
  by (auto simp: is_describe_instances_response_def all_instances_def list_all_iff
      is_reservation_def)

lemma first_name_at_first:
  assumes "\<forall>t \<in> set before. \<not> has_key_Name t" and "has_key_Name tag"
  shows "first_name (before @ tag # after) = or_None (field tag ''Value'')"
proof -
  from assms have "find has_key_Name (before @ tag # after) = Some tag"
    by (induction before) simp_all
  then show ?thesis by (simp add: first_name_def)
qed

lemma example_response_ok: "is_describe_instances_response example_response"
  by (simp add: is_describe_instances_response_def example_response_def is_reservation_def
      is_instance_def is_tag_def example_instance_1_def example_instance_2_def
      example_instance_3_def)

lemma example_describes:
  "describes example_boto3 example_credentials ''us-east-1'' example_response"
  by (simp add: describes_def example_boto3_def example_credentials_def)

lemma example_all_instances:
  "all_instances example_response = [example_instance_1, example_instance_2, example_instance_3]"
  by (simp add: all_instances_def example_response_def)

text \<open>
  C1. For every describe-instances response that the SDK calls deliver,
  \<open>get_ec2_instances\<close> returns, with no error, exactly one record per instance across
  all reservations and in their order; each record has the two fields \<open>Name\<close> and
  \<open>Instance ID\<close>, the latter the instance's \<open>InstanceId\<close>, the former the \<open>Value\<close> of a
  tag with \<open>Key\<close> \<open>Name\<close> when the instance has such a tag and \<open>N/A\<close> when it has none
  or has no \<open>Tags\<close> at all.
\<close>

theorem get_ec2_instances_one_record_per_instance:
  assumes "is_describe_instances_response response"
    and "describes B aws_credentials region response"
  shows "\<exists>records.
           fst (get_ec2_instances B aws_credentials region) = (PList records, PNone) \<and>
           list_all2 record_as_specified (all_instances response) records"
proof -
  let ?records = "map first_name_record (all_instances response)"
  have "fst (get_ec2_instances B aws_credentials region) = (PList ?records, PNone)"
    by (simp add: get_ec2_instances_describes [OF assms(2)]
        extract_instances_response [OF assms(1)])
  moreover have "list_all2 record_as_specified (all_instances response) ?records"
    using all_instances_are_instances [OF assms(1)]
    by (simp add: list_all2_map2 list_all2_same list_all_iff first_name_record_as_specified)
  ultimately show ?thesis by blast
qed

text \<open>The theorem at the example response: three instances, three records.\<close>

theorem get_ec2_instances_one_record_per_instance_witness:
  "is_describe_instances_response example_response \<and>
   describes example_boto3 example_credentials ''us-east-1'' example_response \<and>
   (\<exists>records.
      fst (get_ec2_instances example_boto3 example_credentials ''us-east-1'') =
        (PList records, PNone) \<and>
      list_all2 record_as_specified
        [example_instance_1, example_instance_2, example_instance_3] records)"
  using get_ec2_instances_one_record_per_instance [OF example_response_ok example_describes]
  by (simp add: example_response_ok example_describes example_all_instances)

text \<open>
  C8. When the tag list of an instance of the response has a tag with \<open>Key\<close> \<open>Name\<close>,
  the \<open>Name\<close> of the record for that instance is the \<open>Value\<close> of the first such tag in
  list order, whatever tags follow it.
\<close>

theorem get_ec2_instances_first_Name_tag:
  assumes "is_describe_instances_response response"
    and "describes B aws_credentials region response"
    and "i < length (all_instances response)"
    and "tag_list (all_instances response ! i) = before @ tag # after"
    and "\<forall>t \<in> set before. \<not> has_key_Name t"
    and "has_key_Name tag"
  shows "\<exists>records v.
           fst (get_ec2_instances B aws_credentials region) = (PList records, PNone) \<and>
           length records = length (all_instances response) \<and>
           field tag ''Value'' = Some v \<and> field (records ! i) ''Name'' = Some v"
proof -
  let ?inst = "all_instances response ! i"
  let ?records = "map first_name_record (all_instances response)"
  have res: "fst (get_ec2_instances B aws_credentials region) = (PList ?records, PNone)"
    by (simp add: get_ec2_instances_describes [OF assms(2)]
        extract_instances_response [OF assms(1)])
  have "is_instance ?inst"
    using all_instances_are_instances [OF assms(1)] assms(3) by (simp add: list_all_length)
  then have "list_all is_tag (tag_list ?inst)"
    by (rule is_instance_tags)
  then have "is_tag tag" by (simp add: assms(4))
  then obtain v where v: "field tag ''Value'' = Some v" by (auto simp: is_tag_def)
  have "field (?records ! i) ''Name'' = Some (first_name (tag_list ?inst))"
    using assms(3) by (simp add: first_name_record_def)
  also have "first_name (tag_list ?inst) = v"
    using first_name_at_first [OF assms(5,6), of after] v by (simp add: assms(4) or_None_def)
  finally show ?thesis using res v by auto
qed

text \<open>
  The theorem at the first instance of the example response, whose tags are \<open>env\<close>,
  \<open>Name = web\<close> and \<open>Name = spare\<close>: the record is named \<open>web\<close>.
\<close>

theorem get_ec2_instances_first_Name_tag_witness:
  "\<exists>records.
     fst (get_ec2_instances example_boto3 example_credentials ''us-east-1'') =
       (PList records, PNone) \<and>
     length records = 3 \<and> field (records ! 0) ''Name'' = Some (PStr ''web'')"
proof -
  have a: "0 < length (all_instances example_response)"
    by (simp add: example_all_instances)
  have b: "tag_list (all_instances example_response ! 0) =
     [PDict [(''Key'', PStr ''env''), (''Value'', PStr ''prod'')]] @
     PDict [(''Key'', PStr ''Name''), (''Value'', PStr ''web'')] #
     [PDict [(''Key'', PStr ''Name''), (''Value'', PStr ''spare'')]]"
    by (simp add: example_all_instances tag_list_def example_instance_1_def)
  have c: "\<forall>t \<in> set [PDict [(''Key'', PStr ''env''), (''Value'', PStr ''prod'')]].
             \<not> has_key_Name t"
    by (simp add: has_key_Name_def)
  have d: "has_key_Name (PDict [(''Key'', PStr ''Name''), (''Value'', PStr ''web'')])"
    by (simp add: has_key_Name_def)
  from get_ec2_instances_first_Name_tag [OF example_response_ok example_describes a b c d]
  show ?thesis by (simp add: example_all_instances numeral_3_eq_3)
qed

section \<open>Properties of get_workspace_client and get_aws_credentials\<close>

text \<open>
  C6. \<open>get_workspace_client\<close> calls the constructor with the host and the token read
  from the environment exactly when \<open>ENVIRONMENT\<close> is set to \<open>LOCAL\<close>, and with no
  argument in every other case, an unset \<open>ENVIRONMENT\<close> included.
\<close>

theorem get_workspace_client_LOCAL:
  "(get_workspace_client env =
      WorkspaceClient [(''host'', os_getenv env ''DATABRICKS_HOST'' PNone),
                       (''token'', os_getenv env ''DATABRICKS_TOKEN'' PNone)])
     = (env ''ENVIRONMENT'' = Some ''LOCAL'')
   \<and> (get_workspace_client env = WorkspaceClient []) = (env ''ENVIRONMENT'' \<noteq> Some ''LOCAL'')"
  by (auto simp: get_workspace_client_def ENVIRONMENT_def DATABRICKS_HOST_def
      DATABRICKS_TOKEN_def os_getenv_def split: option.splits)

text \<open>
  C9. Whatever the credential service returns or raises, the pair returned by
  \<open>get_aws_credentials\<close> is either a dictionary with the three credential fields
  together with \<open>None\<close>, or \<open>None\<close> together with a non-empty error string.
\<close>

theorem get_aws_credentials_exactly_one_None:
  "(\<exists>k s t. get_aws_credentials D wc name =
      (PDict [(''access_key_id'', k), (''secret_access_key'', s), (''session_token'', t)], PNone))
   \<or> (\<exists>msg. msg \<noteq> [] \<and> get_aws_credentials D wc name = (PNone, PStr msg))"
  by (auto simp: get_aws_credentials_def get_aws_credentials_try_def split: sum.splits)

text \<open>
  C2, as the code has it. For every response of the credential service,
  \<open>get_aws_credentials\<close> returns the dictionary of the three fields, paired with \<open>None\<close>,
  exactly when the response has an \<open>aws_temp_credentials\<close> attribute whose value has
  the attributes \<open>access_key_id\<close>, \<open>secret_access_key\<close> and \<open>session_token\<close>; the fields
  are the values of these attributes. In every other case it returns \<open>None\<close> paired with
  a non-empty error string, which is \<open>No AWS credentials found in response\<close> when the
  attribute \<open>aws_temp_credentials\<close> is absent.
\<close>

theorem get_aws_credentials_populated_iff_credentials:
  assumes "generate_temporary_service_credential D wc name = Inr response"
  shows "(has_aws_credentials response \<longrightarrow>
            (\<exists>aws_creds k s t.
               getattr response ''aws_temp_credentials'' = Inr aws_creds \<and>
               getattr aws_creds ''access_key_id'' = Inr k \<and>
               getattr aws_creds ''secret_access_key'' = Inr s \<and>
               getattr aws_creds ''session_token'' = Inr t \<and>
               get_aws_credentials D wc name =
                 (PDict [(''access_key_id'', k), (''secret_access_key'', s),
                         (''session_token'', t)], PNone)))
       \<and> (\<not> has_aws_credentials response \<longrightarrow>
            (\<exists>msg. msg \<noteq> [] \<and> get_aws_credentials D wc name = (PNone, PStr msg)))
       \<and> (\<not> hasattr response ''aws_temp_credentials'' \<longrightarrow>
            get_aws_credentials D wc name =
              (PNone, PStr ''No AWS credentials found in response''))"
  using assms
  by (auto simp: has_aws_credentials_def get_aws_credentials_def get_aws_credentials_try_def
      hasattr_getattr split: sum.splits)

text \<open>
  The theorem at the three example responses: with credentials, with the attribute set
  to \<open>None\<close>, and without the attribute.
\<close>

theorem get_aws_credentials_populated_iff_credentials_witness:
  "get_aws_credentials (databricks_returning (Inr example_aws_response))
       (WorkspaceClient []) ''my-credential'' = (example_credentials, PNone)
   \<and> (\<exists>msg. msg \<noteq> [] \<and>
         get_aws_credentials (databricks_returning (Inr example_azure_response))
           (WorkspaceClient []) ''my-credential'' = (PNone, PStr msg))
   \<and> get_aws_credentials (databricks_returning (Inr example_bare_response))
         (WorkspaceClient []) ''my-credential'' =
       (PNone, PStr ''No AWS credentials found in response'')"
proof -
  have a: "generate_temporary_service_credential (databricks_returning (Inr r))
             (WorkspaceClient []) ''my-credential'' = Inr r" for r
    by (simp add: databricks_returning_def)
  have h1: "has_aws_credentials example_aws_response"
    by (simp add: has_aws_credentials_def example_aws_response_def)
  have h2: "\<not> has_aws_credentials example_azure_response"
    by (simp add: has_aws_credentials_def example_azure_response_def)
  have h3: "\<not> hasattr example_bare_response ''aws_temp_credentials''"
    by (simp add: example_bare_response_def)
  from get_aws_credentials_populated_iff_credentials [OF a, THEN conjunct1, THEN mp, OF h1]
  have "get_aws_credentials (databricks_returning (Inr example_aws_response))
       (WorkspaceClient []) ''my-credential'' = (example_credentials, PNone)"
    by (auto simp: example_aws_response_def example_credentials_def)
  with get_aws_credentials_populated_iff_credentials
         [OF a, THEN conjunct2, THEN conjunct1, THEN mp, OF h2]
       get_aws_credentials_populated_iff_credentials
         [OF a, THEN conjunct2, THEN conjunct2, THEN mp, OF h3]
  show ?thesis by simp
qed

text \<open>
  C2 as stated fails where the attribute is present and holds \<open>None\<close>, as it does for a
  credential of another cloud: the response has the attribute, and the function
  returns \<open>None\<close> with the text of the \<open>AttributeError\<close> instead of a dictionary.
\<close>

theorem get_aws_credentials_attribute_None_counterexample:
  "generate_temporary_service_credential (databricks_returning (Inr example_azure_response))
     (WorkspaceClient []) ''my-credential'' = Inr example_azure_response \<and>
   hasattr example_azure_response ''aws_temp_credentials'' \<and>
   get_aws_credentials (databricks_returning (Inr example_azure_response))
     (WorkspaceClient []) ''my-credential'' =
     (PNone,
      PStr (''Error getting AWS credentials: 'NoneType' object has no attribute '' @
            quoted ''access_key_id''))"
  by (simp add: databricks_returning_def example_azure_response_def get_aws_credentials_def
      get_aws_credentials_try_def no_attribute_def quoted_def)



section \<open>Properties of download_file_from_volume\<close>

lemma read_contents_first_line:
  "\<exists>rest. snd (read_contents stream) = branch_line From_contents # rest"
  by (simp add: read_contents_def Let_def split: sum.splits)

lemma source_cases:
  obtains (contents) "hasattr r ''contents'' \<and> contents_is_not_None r"
    | (content) "\<not> (hasattr r ''contents'' \<and> contents_is_not_None r)" "hasattr r ''content''"
    | (body) "\<not> (hasattr r ''contents'' \<and> contents_is_not_None r)" "\<not> hasattr r ''content''"
        "hasattr r ''body''"
    | (read) "\<not> (hasattr r ''contents'' \<and> contents_is_not_None r)" "\<not> hasattr r ''content''"
        "\<not> hasattr r ''body''" "hasattr r ''read''"
    | (bytes) "\<not> (hasattr r ''contents'' \<and> contents_is_not_None r)" "\<not> hasattr r ''content''"
        "\<not> hasattr r ''body''" "\<not> hasattr r ''read''"
  by blast

lemma byte_extraction_first_line:
  "\<exists>rest. snd (byte_extraction P r) = branch_line (first_usable r) # rest"
proof (cases r rule: source_cases)
  case contents
  then obtain stream where "getattr r ''contents'' = Inr stream"
    by (auto simp: hasattr_getattr)
  with contents read_contents_first_line [of stream] show ?thesis
    by (simp add: byte_extraction_def first_usable_def)
next
  case content
  then obtain x where "getattr r ''content'' = Inr x"
    by (auto simp: hasattr_getattr)
  with content show ?thesis
    by (auto simp: byte_extraction_def first_usable_def)
next
  case body
  then obtain x where "getattr r ''body'' = Inr x"
    by (auto simp: hasattr_getattr)
  with body show ?thesis
    by (auto simp: byte_extraction_def first_usable_def)
next
  case read
  then obtain m where "getattr r ''read'' = Inr m"
    by (auto simp: hasattr_getattr)
  with read show ?thesis
    by (cases "call m") (auto simp: byte_extraction_def first_usable_def)
next
  case bytes
  then show ?thesis
    by (cases "py_bytes P r") (auto simp: byte_extraction_def first_usable_def)
qed

lemma download_try_prints:
  assumes "downloads P r"
  shows "\<exists>rest. snd (snd (download_file_from_volume_try P fs)) =
           [''Initializing Databricks SDK...'',
            ''Downloading '' @ get_volume_path @ '' to '' @ LOCAL_FILE_PATH @ ''...'',
            ''Response type: '' @ type_str r, branch_line (first_usable r)] @ rest"
proof -
  obtain rest where "snd (byte_extraction P r) = branch_line (first_usable r) # rest"
    using byte_extraction_first_line by blast
  then show ?thesis using assms
    by (cases "byte_extraction P r"; cases "fst (byte_extraction P r)")
       (auto simp: download_file_from_volume_try_def downloads_def Let_def split: prod.splits)
qed

lemma download_prints_extend:
  "\<exists>rest. snd (snd (download_file_from_volume P fs)) =
           snd (snd (download_file_from_volume_try P fs)) @ rest"
  by (auto simp: download_file_from_volume_def Let_def split: prod.splits sum.splits)

lemma download_branch_line:
  assumes "downloads P r"
  shows "snd (snd (download_file_from_volume P fs)) ! 3 = branch_line (first_usable r)"
proof -
  obtain r1 where a: "snd (snd (download_file_from_volume_try P fs)) =
           [''Initializing Databricks SDK...'',
            ''Downloading '' @ get_volume_path @ '' to '' @ LOCAL_FILE_PATH @ ''...'',
            ''Response type: '' @ type_str r, branch_line (first_usable r)] @ r1"
    using download_try_prints [OF assms] by blast
  obtain r2 where "snd (snd (download_file_from_volume P fs)) =
           snd (snd (download_file_from_volume_try P fs)) @ r2"
    using download_prints_extend by blast
  with a show ?thesis by simp
qed

lemma byte_extraction_bytes:
  assumes "source_value P r (first_usable r) = Inr (PBytes b)"
  shows "fst (byte_extraction P r) = Continue (PBytes b)"
proof (cases r rule: source_cases)
  case contents
  then obtain stream where s: "getattr r ''contents'' = Inr stream"
    by (auto simp: hasattr_getattr)
  with contents assms have "read_of stream = Inr (PBytes b)"
    by (simp add: first_usable_def)
  then obtain m where m: "getattr stream ''read'' = Inr m" and c: "call m = Inr (PBytes b)"
    by (auto simp: read_of_def split: sum.splits)
  from m have "hasattr stream ''read''" by (auto simp: hasattr_getattr)
  with contents s m c show ?thesis
    by (simp add: byte_extraction_def read_contents_def Let_def)
next
  case content
  with assms show ?thesis
    by (auto simp: byte_extraction_def first_usable_def)
next
  case body
  with assms show ?thesis
    by (auto simp: byte_extraction_def first_usable_def)
next
  case read
  with assms have "read_of r = Inr (PBytes b)"
    by (auto simp: first_usable_def)
  then obtain m where "getattr r ''read'' = Inr m" and "call m = Inr (PBytes b)"
    by (auto simp: read_of_def split: sum.splits)
  with read show ?thesis
    by (auto simp: byte_extraction_def)
next
  case bytes
  with assms show ?thesis
    by (auto simp: byte_extraction_def first_usable_def)
qed

lemma write_local_bytes:
  assumes "open_wb P LOCAL_FILE_PATH = None"
  shows "\<exists>out. write_local P (PBytes b) fs = (Inr True, fs(LOCAL_FILE_PATH \<mapsto> b), out)"
  using assms by (simp add: write_local_def Let_def)

lemma download_bytes:
  assumes "downloads P r"
    and "source_value P r (first_usable r) = Inr (PBytes b) \<and> open_wb P LOCAL_FILE_PATH = None"
  shows "fst (download_file_from_volume P fs) \<and>
         fst (snd (download_file_from_volume P fs)) = fs(LOCAL_FILE_PATH \<mapsto> b)"
proof -
  obtain out where w: "write_local P (PBytes b) fs = (Inr True, fs(LOCAL_FILE_PATH \<mapsto> b), out)"
    using write_local_bytes assms(2) by blast
  have "fst (byte_extraction P r) = Continue (PBytes b)"
    using byte_extraction_bytes assms(2) by blast
  then obtain printed where "byte_extraction P r = (Continue (PBytes b), printed)"
    by (cases "byte_extraction P r") simp
  with w assms(1) show ?thesis
    by (simp add: download_file_from_volume_def download_file_from_volume_try_def downloads_def
        Let_def)
qed

lemma download_none_match:
  assumes "downloads P r" and "first_usable r = From_bytes \<and> py_bytes P r = Inl e"
  shows "\<not> fst (download_file_from_volume P fs) \<and>
         fst (snd (download_file_from_volume P fs)) = fs"
proof -
  from assms(2) have n: "\<not> (hasattr r ''contents'' \<and> contents_is_not_None r)"
    "\<not> hasattr r ''content''" "\<not> hasattr r ''body''" "\<not> hasattr r ''read''"
    by (auto simp: first_usable_def contents_is_not_None_def hasattr_getattr split: if_splits)
  have "\<exists>printed. byte_extraction P r = (Return False, printed)"
    using n assms(2) by (auto simp: byte_extraction_def)
  then show ?thesis using assms(1)
    by (auto simp: download_file_from_volume_def download_file_from_volume_try_def downloads_def
        Let_def)
qed

lemma download_contents_without_read:
  assumes "downloads P r"
    and "first_usable r = From_contents \<and> getattr r ''contents'' = Inr stream \<and>
         \<not> hasattr stream ''read''"
  shows "\<not> fst (download_file_from_volume P fs) \<and>
         fst (snd (download_file_from_volume P fs)) = fs"
proof -
  from assms(2) have c: "hasattr r ''contents'' \<and> contents_is_not_None r"
    by (auto simp: first_usable_def contents_is_not_None_def hasattr_getattr split: if_splits)
  have "\<exists>printed. byte_extraction P r = (Return False, printed)"
    using c assms(2) by (simp add: byte_extraction_def read_contents_def Let_def)
  then show ?thesis using assms(1)
    by (auto simp: download_file_from_volume_def download_file_from_volume_try_def downloads_def
        Let_def)
qed

text \<open>
  C3, as the code has it. For every response the download call returns, the branch
  taken (told by the line it prints, the fourth of the output) is that of the first
  source in the order \<open>contents\<close>, \<open>content\<close>, \<open>body\<close>, \<open>read\<close>, conversion with
  \<open>bytes()\<close>, where \<open>contents\<close> counts only if it is present and not \<open>None\<close>. When that
  source yields bytes and the local file can be opened, exactly these bytes are
  written and the function returns \<open>True\<close>. When \<open>contents\<close> is chosen and has no
  \<open>read\<close>, and when no attribute matches and the conversion raises, the function
  returns \<open>False\<close> and the local file system is as before.
\<close>

theorem byte_extraction_priority:
  assumes "downloads P r"
  shows "snd (snd (download_file_from_volume P fs)) ! 3 = branch_line (first_usable r)
       \<and> (\<forall>b. source_value P r (first_usable r) = Inr (PBytes b) \<and>
               open_wb P LOCAL_FILE_PATH = None \<longrightarrow>
               fst (download_file_from_volume P fs) \<and>
               fst (snd (download_file_from_volume P fs)) = fs(LOCAL_FILE_PATH \<mapsto> b))
       \<and> (\<forall>stream. first_usable r = From_contents \<and> getattr r ''contents'' = Inr stream \<and>
               \<not> hasattr stream ''read'' \<longrightarrow>
               \<not> fst (download_file_from_volume P fs) \<and>
               fst (snd (download_file_from_volume P fs)) = fs)
       \<and> (\<forall>e. first_usable r = From_bytes \<and> py_bytes P r = Inl e \<longrightarrow>
               \<not> fst (download_file_from_volume P fs) \<and>
               fst (snd (download_file_from_volume P fs)) = fs)"
proof -
  have line: "snd (snd (download_file_from_volume P fs)) ! 3 = branch_line (first_usable r)"
    by (rule download_branch_line [OF assms])
  have written: "\<forall>b. source_value P r (first_usable r) = Inr (PBytes b) \<and>
               open_wb P LOCAL_FILE_PATH = None \<longrightarrow>
               fst (download_file_from_volume P fs) \<and>
               fst (snd (download_file_from_volume P fs)) = fs(LOCAL_FILE_PATH \<mapsto> b)"
    using download_bytes [OF assms] by blast
  have closed: "\<forall>stream. first_usable r = From_contents \<and>
               getattr r ''contents'' = Inr stream \<and> \<not> hasattr stream ''read'' \<longrightarrow>
               \<not> fst (download_file_from_volume P fs) \<and>
               fst (snd (download_file_from_volume P fs)) = fs"
    using download_contents_without_read [OF assms] by blast
  have none: "\<forall>e. first_usable r = From_bytes \<and> py_bytes P r = Inl e \<longrightarrow>
               \<not> fst (download_file_from_volume P fs) \<and>
               fst (snd (download_file_from_volume P fs)) = fs"
    using download_none_match [OF assms] by blast
  show ?thesis by (intro conjI line written closed none)
qed

text \<open>
  The theorem at three responses: a \<open>contents\<close> stream whose \<open>read()\<close> gives six bytes,
  a \<open>contents\<close> object without \<open>read\<close>, and an object with none of the attributes, which
  the conversion rejects.
\<close>

theorem byte_extraction_priority_witness:
  "snd (snd (download_file_from_volume (platform_returning (Inr response_stream)) Map.empty)) ! 3
     = ''Response has contents attribute (BinaryIO)...''
   \<and> fst (download_file_from_volume (platform_returning (Inr response_stream)) Map.empty)
   \<and> fst (snd (download_file_from_volume (platform_returning (Inr response_stream)) Map.empty))
       = [''big.json'' \<mapsto> ''[1, 2]'']
   \<and> \<not> fst (download_file_from_volume (platform_returning (Inr response_closed)) Map.empty)
   \<and> fst (snd (download_file_from_volume (platform_returning (Inr response_closed)) Map.empty))
       = Map.empty
   \<and> \<not> fst (download_file_from_volume (platform_returning (Inr response_unknown)) Map.empty)
   \<and> fst (snd (download_file_from_volume (platform_returning (Inr response_unknown)) Map.empty))
       = Map.empty"
proof -
  have d: "downloads (platform_returning (Inr r)) r" for r
    by (simp add: downloads_def platform_returning_def)
  have u1: "first_usable response_stream = From_contents"
    by (simp add: first_usable_def contents_is_not_None_def response_stream_def)
  have s1: "source_value (platform_returning (Inr response_stream)) response_stream
              (first_usable response_stream) = Inr (PBytes ''[1, 2]'') \<and>
            open_wb (platform_returning (Inr response_stream)) LOCAL_FILE_PATH = None"
    by (simp add: u1) (simp add: response_stream_def read_of_def platform_returning_def)
  have s2: "first_usable response_closed = From_contents \<and>
            getattr response_closed ''contents'' = Inr (PObj ''Handle'' []) \<and>
            \<not> hasattr (PObj ''Handle'' []) ''read''"
    by (simp add: first_usable_def contents_is_not_None_def response_closed_def)
  have s3: "first_usable response_unknown = From_bytes \<and>
            py_bytes (platform_returning (Inr response_unknown)) response_unknown =
              Inl (Exn TypeError (''cannot convert '' @ quoted ''Unknown'' @ '' object to bytes''))"
    by (simp add: first_usable_def response_unknown_def platform_returning_def)
  from byte_extraction_priority [OF d, of response_stream Map.empty, THEN conjunct1]
    byte_extraction_priority [OF d, of response_stream Map.empty, THEN conjunct2,
      THEN conjunct1, THEN spec, THEN mp, OF s1]
    byte_extraction_priority [OF d, of response_closed Map.empty, THEN conjunct2,
      THEN conjunct2, THEN conjunct1, THEN spec, THEN mp, OF s2]
    byte_extraction_priority [OF d, of response_unknown Map.empty, THEN conjunct2,
      THEN conjunct2, THEN conjunct2, THEN spec, THEN mp, OF s3]
  show ?thesis by (simp add: u1 LOCAL_FILE_PATH_def)
qed

text \<open>
  C3 as stated fails where \<open>contents\<close> is present and holds \<open>None\<close>: it is the first
  present attribute, yet the function takes the \<open>content\<close> branch and writes the bytes
  found there.
\<close>

theorem byte_extraction_contents_None_counterexample:
  "downloads (platform_returning (Inr response_contents_None)) response_contents_None \<and>
   first_present response_contents_None = From_contents \<and>
   download_file_from_volume (platform_returning (Inr response_contents_None)) Map.empty =
     (True, [''big.json'' \<mapsto> ''[1, 2]''],
      [''Initializing Databricks SDK...'',
       ''Downloading /Volumes/example/default/test-volume/big.json to big.json...'',
       ''Response type: <class 'DownloadResponse'>'',
       ''Response has content attribute...'',
       ''Content type: <class 'bytes'>, length: 6'',
       ''Successfully downloaded big.json (0.00 MB)''])"
  by (simp add: downloads_def platform_returning_def response_contents_None_def first_present_def
      download_file_from_volume_def download_file_from_volume_try_def byte_extraction_def
      contents_is_not_None_def write_local_def Let_def get_volume_path_def VOLUME_CATALOG_def
      VOLUME_SCHEMA_def VOLUME_NAME_def FILE_NAME_def LOCAL_FILE_PATH_def type_str_def quoted_def
      format_mb_def str_nat.simps digit_def)

section \<open>Exceptions of the external calls\<close>

lemma get_aws_credentials_try_raises:
  assumes "generate_temporary_service_credential D wc name = Inl e"
  shows "get_aws_credentials_try D wc name = Inl e"
  using assms by (simp add: get_aws_credentials_try_def)

lemma get_aws_credentials_handler:
  assumes "get_aws_credentials_try D wc name = Inl e"
  shows "get_aws_credentials D wc name =
           (PNone, PStr (''Error getting AWS credentials: '' @ str_exn e))"
  using assms by (simp add: get_aws_credentials_def)

lemma get_ec2_instances_try_raises:
  assumes "boto3_raises B aws_credentials region e"
  shows "fst (get_ec2_instances_try B aws_credentials region) = Inl e"
  using assms
  by (auto simp: boto3_raises_def get_ec2_instances_try_def split: sum.splits prod.splits)

lemma get_ec2_instances_handler:
  assumes "fst (get_ec2_instances_try B aws_credentials region) = Inl e"
  shows "fst (get_ec2_instances B aws_credentials region) =
           (PList [], PStr (''Error getting EC2 instances: '' @ str_exn e))"
  using assms
  by (cases "get_ec2_instances_try B aws_credentials region")
     (simp add: get_ec2_instances_def)

lemma download_handler:
  assumes "fst (download_file_from_volume_try P fs) = Inl e"
  shows "fst (download_file_from_volume P fs) =
           (isinstance_ImportError e \<and>
            \<not> isl (dbutils_fs_cp P get_volume_path (''file:/'' @ LOCAL_FILE_PATH)
                     (fst (snd (download_file_from_volume_try P fs)))))"
proof -
  obtain fs' out where "download_file_from_volume_try P fs = (Inl e, fs', out)"
    using assms by (cases "download_file_from_volume_try P fs") auto
  then show ?thesis
    by (auto simp: download_file_from_volume_def Let_def split: sum.splits)
qed

lemma download_try_sdk_raises:
  assumes "sdk_raises P e"
  shows "fst (download_file_from_volume_try P fs) = Inl e \<and>
         fst (snd (download_file_from_volume_try P fs)) = fs"
  using assms
  by (auto simp: sdk_raises_def download_file_from_volume_try_def Let_def)

lemma byte_extraction_read_raises:
  assumes "read_raises r e"
  shows "fst (byte_extraction P r) = Raise e"
proof (cases r rule: source_cases)
  case contents
  then have u: "first_usable r = From_contents" by (simp add: first_usable_def)
  from contents obtain stream where s: "getattr r ''contents'' = Inr stream"
    by (auto simp: hasattr_getattr)
  with assms u have h: "hasattr stream ''read''" and r: "read_of stream = Inl e"
    by (simp_all add: read_raises_def)
  from h obtain m where m: "getattr stream ''read'' = Inr m" by (auto simp: hasattr_getattr)
  with r have "call m = Inl e" by (simp add: read_of_def)
  with contents s h m show ?thesis
    by (simp add: byte_extraction_def read_contents_def Let_def)
next
  case content
  then have "first_usable r = From_content" by (auto simp: first_usable_def)
  with assms show ?thesis by (simp add: read_raises_def)
next
  case body
  then have "first_usable r = From_body" by (auto simp: first_usable_def)
  with assms show ?thesis by (simp add: read_raises_def)
next
  case read
  then have "first_usable r = From_read" by (auto simp: first_usable_def)
  with assms have r: "read_of r = Inl e" by (simp add: read_raises_def)
  from read obtain m where m: "getattr r ''read'' = Inr m" by (auto simp: hasattr_getattr)
  with r have "call m = Inl e" by (simp add: read_of_def)
  with read m show ?thesis by (auto simp: byte_extraction_def)
next
  case bytes
  then have "first_usable r = From_bytes" by (auto simp: first_usable_def)
  with assms show ?thesis by (simp add: read_raises_def)
qed

lemma download_try_read_raises:
  assumes "downloads P r" and "read_raises r e"
  shows "fst (download_file_from_volume_try P fs) = Inl e \<and>
         fst (snd (download_file_from_volume_try P fs)) = fs"
proof -
  obtain printed where "byte_extraction P r = (Raise e, printed)"
    using byte_extraction_read_raises [OF assms(2), of P] by (cases "byte_extraction P r") simp
  with assms(1) show ?thesis
    by (simp add: download_file_from_volume_try_def downloads_def Let_def)
qed

lemma download_try_open_raises:
  assumes "downloads P r" and "open_raises P r e"
  shows "fst (download_file_from_volume_try P fs) = Inl e \<and>
         fst (snd (download_file_from_volume_try P fs)) = fs"
proof -
  from assms(2) obtain b where b: "source_value P r (first_usable r) = Inr (PBytes b)"
    and o: "open_wb P LOCAL_FILE_PATH = Some e"
    by (auto simp: open_raises_def split: sum.splits pyval.splits)
  have "fst (byte_extraction P r) = Continue (PBytes b)"
    by (rule byte_extraction_bytes [OF b])
  then obtain printed where "byte_extraction P r = (Continue (PBytes b), printed)"
    by (cases "byte_extraction P r") simp
  with assms(1) o show ?thesis
    by (simp add: download_file_from_volume_try_def downloads_def write_local_def Let_def)
qed

lemma download_try_external_call_raises:
  assumes "external_call_raises P e"
  shows "fst (download_file_from_volume_try P fs) = Inl e \<and>
         fst (snd (download_file_from_volume_try P fs)) = fs"
proof (cases "sdk_raises P e")
  case True
  then show ?thesis by (rule download_try_sdk_raises)
next
  case False
  with assms obtain r where d: "downloads P r" and c: "read_raises r e \<or> open_raises P r e"
    by (auto simp: external_call_raises_def downloads_def split: sum.splits)
  from c show ?thesis
    using download_try_read_raises [OF d] download_try_open_raises [OF d] by blast
qed

lemma download_external_call_raises:
  assumes "external_call_raises P e"
  shows "fst (download_file_from_volume P fs) =
           (isinstance_ImportError e \<and>
            \<not> isl (dbutils_fs_cp P get_volume_path (''file:/'' @ LOCAL_FILE_PATH) fs))"
  using download_try_external_call_raises [OF assms, of fs]
    download_handler [of P fs e] by simp

text \<open>
  C4, as the code has it. An exception raised by the credential service makes
  \<open>get_aws_credentials\<close> return \<open>None\<close> with an error string that carries its text; an
  exception raised by the session constructor, by \<open>session.client\<close> or by
  \<open>describe_instances\<close> makes \<open>get_ec2_instances\<close> return the empty list with such a
  string; an exception raised by the import of the SDK, by the client's constructor, by
  the download call, by the \<open>read()\<close> of the downloaded stream or by \<open>open\<close> makes
  \<open>download_file_from_volume\<close> return \<open>False\<close>, unless it is an \<open>ImportError\<close> and the
  copy with \<open>dbutils\<close> then succeeds, in which case the function returns \<open>True\<close>. The
  same holds for every exception that leaves the \<open>try\<close> block of each function,
  whatever raised it. All three functions return a value in each of these cases.
\<close>

theorem external_exceptions_caught:
  "(generate_temporary_service_credential D wc name = Inl e \<longrightarrow>
      get_aws_credentials D wc name =
        (PNone, PStr (''Error getting AWS credentials: '' @ str_exn e)))
   \<and> (boto3_raises B aws_credentials region e \<longrightarrow>
        fst (get_ec2_instances B aws_credentials region) =
          (PList [], PStr (''Error getting EC2 instances: '' @ str_exn e)))
   \<and> (external_call_raises P e \<longrightarrow>
        fst (download_file_from_volume P fs) =
          (isinstance_ImportError e \<and>
           \<not> isl (dbutils_fs_cp P get_volume_path (''file:/'' @ LOCAL_FILE_PATH) fs)))
   \<and> (get_aws_credentials_try D wc name = Inl e \<longrightarrow>
        get_aws_credentials D wc name =
          (PNone, PStr (''Error getting AWS credentials: '' @ str_exn e)))
   \<and> (fst (get_ec2_instances_try B aws_credentials region) = Inl e \<longrightarrow>
        fst (get_ec2_instances B aws_credentials region) =
          (PList [], PStr (''Error getting EC2 instances: '' @ str_exn e)))
   \<and> (fst (download_file_from_volume_try P fs) = Inl e \<longrightarrow>
        fst (download_file_from_volume P fs) =
          (isinstance_ImportError e \<and>
           \<not> isl (dbutils_fs_cp P get_volume_path (''file:/'' @ LOCAL_FILE_PATH)
                    (fst (snd (download_file_from_volume_try P fs))))))"
proof (intro conjI impI)
  assume "generate_temporary_service_credential D wc name = Inl e"
  then show "get_aws_credentials D wc name =
        (PNone, PStr (''Error getting AWS credentials: '' @ str_exn e))"
    by (intro get_aws_credentials_handler get_aws_credentials_try_raises)
next
  assume "boto3_raises B aws_credentials region e"
  then show "fst (get_ec2_instances B aws_credentials region) =
          (PList [], PStr (''Error getting EC2 instances: '' @ str_exn e))"
    by (intro get_ec2_instances_handler get_ec2_instances_try_raises)
next
  assume "external_call_raises P e"
  then show "fst (download_file_from_volume P fs) =
          (isinstance_ImportError e \<and>
           \<not> isl (dbutils_fs_cp P get_volume_path (''file:/'' @ LOCAL_FILE_PATH) fs))"
    by (rule download_external_call_raises)
next
  assume "get_aws_credentials_try D wc name = Inl e"
  then show "get_aws_credentials D wc name =
          (PNone, PStr (''Error getting AWS credentials: '' @ str_exn e))"
    by (rule get_aws_credentials_handler)
next
  assume "fst (get_ec2_instances_try B aws_credentials region) = Inl e"
  then show "fst (get_ec2_instances B aws_credentials region) =
          (PList [], PStr (''Error getting EC2 instances: '' @ str_exn e))"
    by (rule get_ec2_instances_handler)
next
  assume "fst (download_file_from_volume_try P fs) = Inl e"
  then show "fst (download_file_from_volume P fs) =
          (isinstance_ImportError e \<and>
           \<not> isl (dbutils_fs_cp P get_volume_path (''file:/'' @ LOCAL_FILE_PATH)
                    (fst (snd (download_file_from_volume_try P fs)))))"
    by (rule download_handler)
qed

text \<open>
  The theorem at a credential service and an SDK that raise, and at four downloads:
  the download call raises, the stream's \<open>read()\<close> raises, the local file cannot be
  opened, and the written content is not bytes (so that \<open>write\<close> raises in the block).
\<close>

theorem external_exceptions_caught_witness:
  "get_aws_credentials (databricks_returning (Inl (Exn OtherException ''PERMISSION_DENIED'')))
      (WorkspaceClient []) ''my-credential'' =
     (PNone, PStr ''Error getting AWS credentials: PERMISSION_DENIED'')
   \<and> fst (get_ec2_instances example_boto3_denied example_credentials ''us-east-1'') =
       (PList [], PStr ''Error getting EC2 instances: UnauthorizedOperation'')
   \<and> \<not> fst (download_file_from_volume
              (platform_returning (Inl (Exn OtherException ''NOT_FOUND''))) Map.empty)
   \<and> \<not> fst (download_file_from_volume
              (platform_returning (Inr response_broken_stream)) Map.empty)
   \<and> \<not> fst (download_file_from_volume
              (platform_read_only (Inr response_stream)) Map.empty)
   \<and> \<not> fst (download_file_from_volume
              (platform_returning (Inr (PObj ''Response'' [(''content'', PStr ''text'')])))
              Map.empty)"
proof -
  let ?denied = "Exn OtherException ''PERMISSION_DENIED''"
  let ?reset = "Exn OSError ''Connection reset by peer''"
  let ?readonly = "Exn OSError ''[Errno 30] Read-only file system''"
  let ?text = "PObj ''Response'' [(''content'', PStr ''text'')]"
  let ?notbytes = "Exn TypeError (''a bytes-like object is required, not '' @ quoted ''str'')"
  have a: "generate_temporary_service_credential (databricks_returning (Inl ?denied))
             (WorkspaceClient []) ''my-credential'' = Inl ?denied"
    by (simp add: databricks_returning_def)
  have a': "get_aws_credentials_try (databricks_returning (Inl ?denied))
             (WorkspaceClient []) ''my-credential'' = Inl ?denied"
    by (simp add: databricks_returning_def get_aws_credentials_try_def)
  have b: "boto3_raises example_boto3_denied example_credentials ''us-east-1''
             (Exn OtherException ''UnauthorizedOperation'')"
    by (simp add: boto3_raises_def example_boto3_denied_def example_credentials_def)
  have b': "fst (get_ec2_instances_try example_boto3_denied example_credentials ''us-east-1'') =
             Inl (Exn OtherException ''UnauthorizedOperation'')"
    by (simp add: get_ec2_instances_try_def example_boto3_denied_def example_credentials_def)
  have c: "external_call_raises (platform_returning (Inl (Exn OtherException ''NOT_FOUND'')))
             (Exn OtherException ''NOT_FOUND'')"
    by (simp add: external_call_raises_def sdk_raises_def platform_returning_def)
  have d: "external_call_raises (platform_returning (Inr response_broken_stream)) ?reset"
    by (simp add: external_call_raises_def sdk_raises_def platform_returning_def read_raises_def
        first_usable_def contents_is_not_None_def response_broken_stream_def read_of_def)
  have e: "external_call_raises (platform_read_only (Inr response_stream)) ?readonly"
    by (simp add: external_call_raises_def sdk_raises_def platform_read_only_def read_raises_def
        open_raises_def first_usable_def contents_is_not_None_def response_stream_def read_of_def)
  have f: "fst (download_file_from_volume_try (platform_returning (Inr ?text)) Map.empty) =
             Inl ?notbytes"
    by (simp add: download_file_from_volume_try_def platform_returning_def byte_extraction_def
        write_local_def Let_def)
  from external_exceptions_caught [THEN conjunct1, THEN mp, OF a]
    external_exceptions_caught [THEN conjunct2, THEN conjunct1, THEN mp, OF b]
    external_exceptions_caught [where fs = Map.empty, THEN conjunct2, THEN conjunct2,
      THEN conjunct1, THEN mp, OF c]
    external_exceptions_caught [where fs = Map.empty, THEN conjunct2, THEN conjunct2,
      THEN conjunct1, THEN mp, OF d]
    external_exceptions_caught [where fs = Map.empty, THEN conjunct2, THEN conjunct2,
      THEN conjunct1, THEN mp, OF e]
    external_exceptions_caught [THEN conjunct2, THEN conjunct2, THEN conjunct2,
      THEN conjunct1, THEN mp, OF a']
    external_exceptions_caught [THEN conjunct2, THEN conjunct2, THEN conjunct2,
      THEN conjunct2, THEN conjunct1, THEN mp, OF b']
    external_exceptions_caught [THEN conjunct2, THEN conjunct2, THEN conjunct2,
      THEN conjunct2, THEN conjunct2, THEN mp, OF f]
  show ?thesis by simp
qed

text \<open>
  C4 as stated fails for \<open>download_file_from_volume\<close>: when the download call raises an
  \<open>ImportError\<close> where \<open>dbutils\<close> is available, the first handler copies the file and the
  function returns \<open>True\<close>.
\<close>

theorem download_ImportError_fallback_counterexample:
  "sdk_raises (platform_with_dbutils (Inl (Exn ImportError ''No module named 'requests_toolbelt'' )))
     (Exn ImportError ''No module named 'requests_toolbelt'' ) \<and>
   download_file_from_volume
     (platform_with_dbutils (Inl (Exn ImportError ''No module named 'requests_toolbelt'' )))
     Map.empty =
     (True, [''/big.json'' \<mapsto> ''[1, 2]''],
      [''Initializing Databricks SDK...'',
       ''Downloading /Volumes/example/default/test-volume/big.json to big.json...'',
       ''Databricks SDK not available, trying dbutils...'',
       ''Successfully downloaded big.json using dbutils''])"
  by (simp add: sdk_raises_def platform_with_dbutils_def download_file_from_volume_def
      download_file_from_volume_try_def Let_def get_volume_path_def VOLUME_CATALOG_def
      VOLUME_SCHEMA_def VOLUME_NAME_def FILE_NAME_def LOCAL_FILE_PATH_def)

section \<open>Properties of the viewer\<close>

lemma data_analysis_St:
  "filter is_Open_read (data_analysis v) = [] \<and> filter is_Os_path_exists (data_analysis v) = []"
  by (cases v) (auto simp: data_analysis_def split: list.splits)

lemma parse_sample_St:
  "filter is_Open_read (fst (parse_sample J s)) = [] \<and>
   filter is_Os_path_exists (fst (parse_sample J s)) = []"
  by (auto simp: parse_sample_def data_analysis_St split: sum.splits)

lemma read_and_preview_reads:
  "filter is_Open_read (read_and_preview H J fs) = [Open_read local_json_file 10240] \<and>
   filter is_Os_path_exists (read_and_preview H J fs) = []"
proof (cases "open_read H fs local_json_file 10240")
  case (Inl e)
  then show ?thesis by (simp add: read_and_preview_def)
next
  case (Inr sample_content)
  obtain shown raised where p: "parse_sample J sample_content = (shown, raised)"
    by (cases "parse_sample J sample_content")
  with parse_sample_St [of J sample_content]
  have "filter is_Open_read shown = [] \<and> filter is_Os_path_exists shown = []" by simp
  with Inr p show ?thesis
    by (cases raised) (simp_all add: read_and_preview_def)
qed

lemma download_status_checks:
  "filter is_Open_read (download_status fs) = [] \<and>
   filter is_Os_path_exists (download_status fs) =
     [Os_path_exists local_json_file (os_path_exists fs local_json_file)]"
  by (simp add: download_status_def)

lemma app_present:
  assumes "fs local_json_file = Some bytes"
  shows "app H J fs =
    ([St ''set_page_config'' [PStr ''wide''],
      St ''header'' [PStr ''Big JSON File Reader''],
      St ''info'' [PStr ''Reading sample data from downloaded big.json file''],
      Os_path_exists local_json_file True,
      St ''success'' [PStr (''Found local file: '' @ local_json_file)],
      Os_path_getsize local_json_file,
      St ''info'' [PStr (''File size: '' @ format_mb (length bytes) @ '' MB'')]] @
     read_and_preview H J fs @ download_status fs, None)"
  using assms by (simp add: app_def os_path_exists_def os_path_getsize_def Let_def)

lemma app_absent:
  assumes "fs local_json_file = None"
  shows "app H J fs =
    ([St ''set_page_config'' [PStr ''wide''],
      St ''header'' [PStr ''Big JSON File Reader''],
      St ''info'' [PStr ''Reading sample data from downloaded big.json file''],
      Os_path_exists ''big.json'' False,
      St ''error'' [PStr ''Local file not found: big.json''],
      St ''info'' [PStr ''Make sure the startup script successfully downloaded the file from Volume''],
      St ''subheader'' [PStr ''File Download Status''],
      Os_path_exists ''big.json'' False,
      St ''error'' [PStr ''File download failed or file not found''],
      St ''info'' [PStr ''Check the startup logs for download errors'']], None)"
  using assms
  by (simp add: app_def os_path_exists_def Let_def download_status_def local_json_file_def)

text \<open>
  C7. The viewer opens and reads \<open>big.json\<close> exactly when its existence check
  reports the file present, and then once, for 10240 characters; both existence checks
  of the script report what the file system holds; when the file is absent the script
  shows the not-found error and the download-failed status and reads nothing. No
  exception ends the script.
\<close>

theorem app_reads_only_existing_file:
  "filter is_Os_path_exists (fst (app H J fs)) =
       [Os_path_exists local_json_file (local_json_file \<in> dom fs),
        Os_path_exists local_json_file (local_json_file \<in> dom fs)]
   \<and> filter is_Open_read (fst (app H J fs)) =
       (if local_json_file \<in> dom fs then [Open_read local_json_file 10240] else [])
   \<and> (local_json_file \<notin> dom fs \<longrightarrow>
        fst (app H J fs) =
          [St ''set_page_config'' [PStr ''wide''],
           St ''header'' [PStr ''Big JSON File Reader''],
           St ''info'' [PStr ''Reading sample data from downloaded big.json file''],
           Os_path_exists ''big.json'' False,
           St ''error'' [PStr ''Local file not found: big.json''],
           St ''info'' [PStr ''Make sure the startup script successfully downloaded the file from Volume''],
           St ''subheader'' [PStr ''File Download Status''],
           Os_path_exists ''big.json'' False,
           St ''error'' [PStr ''File download failed or file not found''],
           St ''info'' [PStr ''Check the startup logs for download errors'']])
   \<and> snd (app H J fs) = None"
proof (cases "fs local_json_file")
  case None
  then have d: "local_json_file \<notin> dom fs" by (simp add: domIff)
  show ?thesis using d None
    by (simp add: app_absent [of fs H J, OF None] os_path_exists_def local_json_file_def)
next
  case (Some bytes)
  then have d: "local_json_file \<in> dom fs" by (simp add: domIff)
  have e: "os_path_exists fs local_json_file" using Some by (simp add: os_path_exists_def)
  show ?thesis using d e
    by (simp add: app_present [of fs bytes H J, OF Some] read_and_preview_reads
        download_status_checks)
qed

text \<open>
  The theorem on the empty file system and on one that holds \<open>big.json\<close>.
\<close>

theorem app_reads_only_existing_file_witness:
  "filter is_Open_read (fst (app exact_hint json_rejecting Map.empty)) = []
   \<and> fst (app exact_hint json_rejecting Map.empty) =
          [St ''set_page_config'' [PStr ''wide''],
           St ''header'' [PStr ''Big JSON File Reader''],
           St ''info'' [PStr ''Reading sample data from downloaded big.json file''],
           Os_path_exists ''big.json'' False,
           St ''error'' [PStr ''Local file not found: big.json''],
           St ''info'' [PStr ''Make sure the startup script successfully downloaded the file from Volume''],
           St ''subheader'' [PStr ''File Download Status''],
           Os_path_exists ''big.json'' False,
           St ''error'' [PStr ''File download failed or file not found''],
           St ''info'' [PStr ''Check the startup logs for download errors'']]
   \<and> filter is_Open_read
         (fst (app exact_hint json_rejecting [''big.json'' \<mapsto> ''[1, 2]''])) =
       [Open_read ''big.json'' 10240]"
  using app_reads_only_existing_file [of exact_hint json_rejecting Map.empty]
    app_reads_only_existing_file [of exact_hint json_rejecting "[''big.json'' \<mapsto> ''[1, 2]'']"]
  by (simp add: local_json_file_def)

subsection \<open>What the read returns\<close>


















subsection \<open>The preview\<close>





end
